theory Spec2Isabelle
  imports Main
begin

section \<open>Python values used by the browser routes\<close>

text \<open>
  Dictionaries of \<^verbatim>\<open>browser_core.py\<close> keep insertion order, and the code relies on it
  (\<^verbatim>\<open>next(iter(tabs.keys()))\<close>), so a dict is an association list: \<open>dict_set\<close> is
  \<^verbatim>\<open>d[k] = v\<close> (an existing key keeps its place, a new key goes last), \<open>dict_pop\<close> is
  \<^verbatim>\<open>d.pop(k, None)\<close>, \<open>map_of\<close> is \<^verbatim>\<open>d.get(k)\<close> and \<open>first_key\<close> is
  \<^verbatim>\<open>next(iter(d.keys()), None)\<close>.
\<close>

primrec dict_set :: "'k \<Rightarrow> 'v \<Rightarrow> ('k \<times> 'v) list \<Rightarrow> ('k \<times> 'v) list" where
  "dict_set k v [] = [(k, v)]"
| "dict_set k v (p # ps) = (if fst p = k then (k, v) # ps else p # dict_set k v ps)"

primrec dict_pop :: "'k \<Rightarrow> ('k \<times> 'v) list \<Rightarrow> ('k \<times> 'v) list" where
  "dict_pop k [] = []"
| "dict_pop k (p # ps) = (if fst p = k then ps else p # dict_pop k ps)"

definition has_key :: "'k \<Rightarrow> ('k \<times> 'v) list \<Rightarrow> bool" where
  "has_key k d = (map_of d k \<noteq> None)"

fun first_key :: "('k \<times> 'v) list \<Rightarrow> 'k option" where
  "first_key [] = None"
| "first_key (p # ps) = Some (fst p)"

text \<open>\<^verbatim>\<open>a or b\<close> on an optional string: \<^verbatim>\<open>None\<close> and the empty string are falsy.\<close>

fun truthy :: "string option \<Rightarrow> bool" where
  "truthy None = False"
| "truthy (Some s) = (s \<noteq> [])"

definition py_or :: "string option \<Rightarrow> string option \<Rightarrow> string option" where
  "py_or a b = (if truthy a then a else b)"

text \<open>
  \<^verbatim>\<open>xs[:n]\<close>: a negative stop counts from the end, and every stop is clamped to the list.
\<close>

definition slice_to :: "'a list \<Rightarrow> int \<Rightarrow> 'a list" where
  "slice_to xs n = (if 0 \<le> n then take (nat n) xs else take (nat (int (length xs) + n)) xs)"

section \<open>Data model\<close>

text \<open>
  A tab and a session are the dicts built in \<^verbatim>\<open>create_session\<close> and \<^verbatim>\<open>create_tab\<close>.
  Engine objects (page, context) are opaque handles. A \<^verbatim>\<open>datetime\<close> is its count of
  microseconds. The session's \<^verbatim>\<open>asyncio.Lock\<close> is not part of the model: every operation
  below runs from start to end without interleaving.
\<close>

record tab =
  page :: nat
  tab_created_at :: int
  tab_last_used :: int
  history :: "string list"
  history_index :: int

record session =
  browser_context :: nat
  tabs :: "(string \<times> tab) list"
  active_tab_id :: "string option"
  created_at :: int
  last_used :: int

record manager =
  sessions :: "(string \<times> session) list"
  playwright :: bool
  browser :: bool

datatype exn =
    KeyError string
  | RuntimeError string
  | ValueError string
  | PlaywrightError string
  | HTTPXError string
  | HTTPException nat string

text \<open>\<^verbatim>\<open>str(e)\<close>; a \<^verbatim>\<open>KeyError\<close> prints the repr of its argument.\<close>

fun str_exn :: "exn \<Rightarrow> string" where
  "str_exn (KeyError s) = [CHR 0x27] @ s @ [CHR 0x27]"
| "str_exn (RuntimeError s) = s"
| "str_exn (ValueError s) = s"
| "str_exn (PlaywrightError s) = s"
| "str_exn (HTTPXError s) = s"
| "str_exn (HTTPException c s) = s"

subsection \<open>The outside world of one operation\<close>

text \<open>
  Everything an operation reads from outside the manager is a field of \<open>world\<close>: the
  clock (one reading per operation), the identifiers \<^verbatim>\<open>uuid.uuid4()\<close> hands out, the
  configuration read from the process environment, and the outcome of each awaited call
  on the browser engine and on the search API (\<open>None\<close> or \<open>False\<close>: the call raised).
  \<open>url_q\<close> stands for \<^verbatim>\<open>parse_qs(urlparse(url).query).get("q")\<close>, which may raise
  \<^verbatim>\<open>ValueError\<close>. \<open>total_seconds_gt d ttl\<close> stands for
  \<^verbatim>\<open>delta.total_seconds() > ttl\<close> on a \<^verbatim>\<open>timedelta\<close> of \<open>d\<close> microseconds: the
  quotient is a float and its rounding is the language's. \<open>no_results_html\<close> is the text
  shown for an empty result list, which the source does not give in a form Python reads
  (see \<open>results_page\<close>).
\<close>

record cse_item =
  item_title :: "string option"
  item_link :: "string option"
  item_snippet :: "string option"
  item_displayLink :: "string option"

record cse_data =
  items :: "cse_item list option"
  totalResults :: "string option"

record world =
  now :: int
  uuid1 :: string
  uuid2 :: string
  SESSION_TTL_SECONDS :: int
  TAB_TTL_SECONDS :: int
  GOOGLE_CSE_API_KEY :: "string option"
  GOOGLE_CSE_CX :: "string option"
  total_seconds_gt :: "int \<Rightarrow> int \<Rightarrow> bool"
  no_results_html :: string
  cse_get :: "string \<Rightarrow> int \<Rightarrow> int \<Rightarrow> string + cse_data"
  url_q :: "string \<Rightarrow> string + string list option"
  pw_error :: string
  pw_start :: bool
  pw_launch :: bool
  pw_new_context :: "nat option"
  pw_new_page :: "nat option"
  pw_goto :: "string \<Rightarrow> string option"
  pw_set_content :: "string \<Rightarrow> bool"
  pw_wait_for_timeout :: bool
  pw_title :: "string option"
  pw_url :: string
  pw_go_back :: bool
  pw_go_forward :: bool
  pw_reload :: bool
  pw_input :: bool
  pw_screenshot :: "string option"

section \<open>Session management\<close>

definition initialize :: "world \<Rightarrow> manager \<Rightarrow> (exn + unit) \<times> manager" where
  "initialize w m =
     (if \<not> playwright m then
        (if \<not> pw_start w then (Inl (PlaywrightError (pw_error w)), m)
         else if \<not> pw_launch w then (Inl (PlaywrightError (pw_error w)), m\<lparr>playwright := True\<rparr>)
         else (Inr (), m\<lparr>playwright := True, browser := True\<rparr>))
      else (Inr (), m))"

definition new_tab :: "nat \<Rightarrow> int \<Rightarrow> tab" where
  "new_tab pg t =
     \<lparr>page = pg, tab_created_at = t, tab_last_used = t, history = [], history_index = - 1\<rparr>"

definition create_session :: "world \<Rightarrow> manager \<Rightarrow> (exn + string \<times> string) \<times> manager" where
  "create_session w m =
     (case initialize w m of
        (Inl e, m1) \<Rightarrow> (Inl e, m1)
      | (Inr u, m1) \<Rightarrow>
          if \<not> browser m1 then (Inl (RuntimeError ''Playwright browser not initialized''), m1)
          else (case pw_new_context w of
                  None \<Rightarrow> (Inl (PlaywrightError (pw_error w)), m1)
                | Some ctx \<Rightarrow>
                    (case pw_new_page w of
                       None \<Rightarrow> (Inl (PlaywrightError (pw_error w)), m1)
                     | Some pg \<Rightarrow>
                         let session_id = uuid1 w; first_tab_id = uuid2 w in
                         (Inr (session_id, first_tab_id),
                          m1\<lparr>sessions := dict_set session_id
                                \<lparr>browser_context = ctx,
                                 tabs = [(first_tab_id, new_tab pg (now w))],
                                 active_tab_id = Some first_tab_id,
                                 created_at = now w,
                                 last_used = now w\<rparr> (sessions m1)\<rparr>))))"

definition get_session :: "manager \<Rightarrow> string \<Rightarrow> session option" where
  "get_session m session_id = map_of (sessions m) session_id"

text \<open>Writing through the session object the registry holds under \<open>session_id\<close>.\<close>

definition put_session :: "string \<Rightarrow> session \<Rightarrow> manager \<Rightarrow> manager" where
  "put_session session_id s m = m\<lparr>sessions := dict_set session_id s (sessions m)\<rparr>"

definition close_session :: "string \<Rightarrow> manager \<Rightarrow> manager" where
  "close_session session_id m =
     (if has_key session_id (sessions m)
      then m\<lparr>sessions := dict_pop session_id (sessions m)\<rparr>
      else m)"

definition create_tab :: "world \<Rightarrow> string \<Rightarrow> manager \<Rightarrow> (exn + string) \<times> manager" where
  "create_tab w session_id m =
     (case get_session m session_id of
        None \<Rightarrow> (Inl (KeyError ''Session not found''), m)
      | Some s \<Rightarrow>
          (case pw_new_page w of
             None \<Rightarrow> (Inl (PlaywrightError (pw_error w)), m)
           | Some pg \<Rightarrow>
               let tab_id = uuid1 w in
               (Inr tab_id,
                put_session session_id
                  (s\<lparr>tabs := dict_set tab_id (new_tab pg (now w)) (tabs s),
                     active_tab_id := Some tab_id,
                     last_used := now w\<rparr>) m)))"

text \<open>
  \<^verbatim>\<open>close_tab\<close>: the failure of \<^verbatim>\<open>page.close()\<close> is swallowed, so it has no branch.
  Where the active pointer is repointed the dict is not empty, so \<open>first_key\<close> is the key
  \<^verbatim>\<open>next(iter(tabs.keys()))\<close> returns.
\<close>

definition close_tab :: "world \<Rightarrow> string \<Rightarrow> string \<Rightarrow> manager \<Rightarrow> (exn + unit) \<times> manager" where
  "close_tab w session_id tab_id m =
     (case get_session m session_id of
        None \<Rightarrow> (Inl (KeyError ''Session not found''), m)
      | Some s \<Rightarrow>
          if \<not> has_key tab_id (tabs s) then (Inl (KeyError ''Tab not found''), m)
          else
            let tabs' = dict_pop tab_id (tabs s) in
            if tabs' = [] then
              (Inr (), close_session session_id (put_session session_id (s\<lparr>tabs := tabs'\<rparr>) m))
            else
              (Inr (),
               put_session session_id
                 (s\<lparr>tabs := tabs',
                    active_tab_id :=
                      (if active_tab_id s = Some tab_id then first_key tabs' else active_tab_id s),
                    last_used := now w\<rparr>) m))"

definition touch_tab :: "int \<Rightarrow> tab \<Rightarrow> tab" where
  "touch_tab t tb = tb\<lparr>tab_last_used := t\<rparr>"

definition activate_tab :: "world \<Rightarrow> string \<Rightarrow> string \<Rightarrow> manager \<Rightarrow> (exn + unit) \<times> manager" where
  "activate_tab w session_id tab_id m =
     (case get_session m session_id of
        None \<Rightarrow> (Inl (KeyError ''Session not found''), m)
      | Some s \<Rightarrow>
          (case map_of (tabs s) tab_id of
             None \<Rightarrow> (Inl (KeyError ''Tab not found''), m)
           | Some tb \<Rightarrow>
               (Inr (),
                put_session session_id
                  (s\<lparr>active_tab_id := Some tab_id,
                     last_used := now w,
                     tabs := dict_set tab_id (touch_tab (now w) tb) (tabs s)\<rparr>) m)))"

definition resolve_tab :: "session \<Rightarrow> string option \<Rightarrow> exn + string \<times> tab" where
  "resolve_tab s tab_id =
     (case py_or tab_id (active_tab_id s) of
        None \<Rightarrow> Inl (KeyError ''Tab not found'')
      | Some tid \<Rightarrow>
          if tid = [] then Inl (KeyError ''Tab not found'')
          else (case map_of (tabs s) tid of
                  None \<Rightarrow> Inl (KeyError ''Tab not found'')
                | Some tb \<Rightarrow> Inr (tid, tb)))"

definition get_page :: "world \<Rightarrow> string \<Rightarrow> string option \<Rightarrow> manager \<Rightarrow> (exn + string \<times> nat) \<times> manager" where
  "get_page w session_id tab_id m =
     (case get_session m session_id of
        None \<Rightarrow> (Inl (KeyError ''Session not found''), m)
      | Some s \<Rightarrow>
          (case resolve_tab s tab_id of
             Inl e \<Rightarrow> (Inl e, m)
           | Inr (tid, tb) \<Rightarrow>
               (Inr (tid, page tb),
                put_session session_id
                  (s\<lparr>last_used := now w,
                     tabs := dict_set tid (touch_tab (now w) tb) (tabs s)\<rparr>) m)))"

text \<open>
  The idle reaper, \<^verbatim>\<open>_cleanup_idle\<close>. It walks snapshots of the sessions and of each
  session's tabs. For a tab it tests the idle time and the length of the live dict, then
  awaits \<^verbatim>\<open>tab["page"].close()\<close>, and only after that pops the tab and repoints the
  active pointer; it takes no lock, so other coroutines run between the test and the pop.
  The test and the pop are therefore two functions. A \<^verbatim>\<open>datetime\<close> is truthy, so
  \<^verbatim>\<open>tab.get("last_used") or ...\<close> is the tab's own stamp and
  \<^verbatim>\<open>sess.get("last_used") or ...\<close> the session's. A session past its TTL is collected
  during the walk and closed after it by \<^verbatim>\<open>close_session\<close>.
\<close>

definition idle_longer :: "world \<Rightarrow> int \<Rightarrow> int \<Rightarrow> bool" where
  "idle_longer w stamp ttl = total_seconds_gt w (now w - stamp) ttl"

definition reap_test :: "world \<Rightarrow> tab \<Rightarrow> session \<Rightarrow> bool" where
  "reap_test w tb sess =
     (idle_longer w (tab_last_used tb) (TAB_TTL_SECONDS w) \<and> length (tabs sess) > 1)"

definition reap_pop :: "string \<Rightarrow> session \<Rightarrow> session" where
  "reap_pop tid sess =
     (let tabs' = dict_pop tid (tabs sess) in
      sess\<lparr>tabs := tabs',
           active_tab_id :=
             (if active_tab_id sess = Some tid then first_key tabs' else active_tab_id sess)\<rparr>)"

definition session_expired :: "world \<Rightarrow> session \<Rightarrow> bool" where
  "session_expired w sess = idle_longer w (last_used sess) (SESSION_TTL_SECONDS w)"

section \<open>Helpers\<close>

text \<open>
  \<^verbatim>\<open>_is_internal\<close> matches \<^verbatim>\<open>^chrome://\<close> without regard to case and
  \<^verbatim>\<open>_parse_internal_search\<close> compares the lower-cased URL with \<^verbatim>\<open>chrome://search\<close>.
  Both prefixes are ASCII, and no letter of them is the lower case of a character outside
  ASCII, so lower-casing the ASCII letters decides both tests.
\<close>

definition lower_char :: "char \<Rightarrow> char" where
  "lower_char c =
     (let n = (of_char c :: nat) in if 65 \<le> n \<and> n \<le> 90 then char_of (n + 32) else c)"

definition lower :: "string \<Rightarrow> string" where
  "lower s = map lower_char s"

definition startswith :: "string \<Rightarrow> string \<Rightarrow> bool" where
  "startswith s p = (take (length p) s = p)"

definition is_internal :: "string \<Rightarrow> bool" where
  "is_internal url = startswith (lower url) ''chrome://''"

text \<open>\<^verbatim>\<open>str.strip()\<close>: the whitespace characters below code point 256.\<close>

definition is_space :: "char \<Rightarrow> bool" where
  "is_space c =
     (let n = (of_char c :: nat) in
      (9 \<le> n \<and> n \<le> 13) \<or> (28 \<le> n \<and> n \<le> 32) \<or> n = 133 \<or> n = 160)"

definition strip :: "string \<Rightarrow> string" where
  "strip s = rev (dropWhile is_space (rev (dropWhile is_space s)))"

definition parse_internal_search :: "world \<Rightarrow> string \<Rightarrow> exn + string option" where
  "parse_internal_search w url =
     (if url = [] then Inr None
      else if \<not> startswith (lower url) ''chrome://search'' then Inr None
      else (case url_q w url of
              Inl e \<Rightarrow> Inl (ValueError e)
            | Inr qs \<Rightarrow>
                Inr (Some (strip (case qs of
                                    None \<Rightarrow> []
                                  | Some [] \<Rightarrow> []
                                  | Some (v # vs) \<Rightarrow> v)))))"

text \<open>
  \<^verbatim>\<open>_google_cse_search\<close>: \<open>cse_get\<close> is the whole HTTP exchange, from the request to
  the decoded JSON; \<open>Inl\<close> is anything raised inside it (a timeout, a network error,
  \<^verbatim>\<open>raise_for_status\<close> on a status that is not a success, a body that is not JSON).
\<close>

definition google_cse_search :: "world \<Rightarrow> string \<Rightarrow> int \<Rightarrow> int \<Rightarrow> exn + cse_data" where
  "google_cse_search w query start num =
     (if \<not> truthy (GOOGLE_CSE_API_KEY w) \<or> \<not> truthy (GOOGLE_CSE_CX w)
      then Inl (RuntimeError ''Missing GOOGLE_CSE_API_KEY or GOOGLE_CSE_CX'')
      else
        let start' = max 1 (min start 91); num' = max 1 (min num 10) in
        (case cse_get w query start' num' of
           Inl e \<Rightarrow> Inl (HTTPXError e)
         | Inr data \<Rightarrow> Inr data))"

text \<open>\<^verbatim>\<open>s.replace(c, r)\<close> for a pattern of one character, and \<^verbatim>\<open>sep.join(xs)\<close>.\<close>

definition replace :: "char \<Rightarrow> string \<Rightarrow> string \<Rightarrow> string" where
  "replace c r s = concat (map (\<lambda>x. if x = c then r else [x]) s)"

fun join :: "string \<Rightarrow> string list \<Rightarrow> string" where
  "join sep [] = []"
| "join sep [x] = x"
| "join sep (x # y # ys) = x @ sep @ join sep (y # ys)"

definition esc :: "string \<Rightarrow> string" where
  \<open>esc s = replace (CHR ''"'') ''&quot;''
            (replace CHR ''>'' ''&gt;'' (replace CHR ''<'' ''&lt;'' (replace CHR ''&'' ''&amp;'' s)))\<close>

definition or_empty :: "string option \<Rightarrow> string" where
  "or_empty x = (case x of None \<Rightarrow> [] | Some s \<Rightarrow> s)"

definition nl :: string where
  "nl = [CHR 0x0A]"

text \<open>
  The string literals of \<^verbatim>\<open>_render_search_results_html\<close> are taken as Python reads
  the bytes of the source: inside a literal a doubled backslash and a quote give a
  backslash and a quote (\<open>bq\<close>), so every attribute value of the pages stands between two
  such pairs, and a backslash and a line break give nothing, so the rows are joined by the
  empty string. The else-branch of the line that joins the rows is not an expression as it
  stands in the source; its value is \<open>no_results_html\<close>.
\<close>

definition bq :: string where
  "bq = [CHR 0x5C, CHR 0x22]"

definition fallback_before_link :: string where
  \<open>fallback_before_link = join nl
     [''<!doctype html>'',
      ''<html>'',
      ''<head>'',
      ''  <meta charset='' @ bq @ ''utf-8'' @ bq @ '' />'',
      ''  <meta name='' @ bq @ ''viewport'' @ bq @ '' content='' @ bq @ ''width=device-width, initial-scale=1'' @ bq @ '' />'',
      ''  <title>Search</title>'',
      ''  <style>'',
      ''    body { background:#0b0b0f; color:#e4e4e7; font-family: ui-sans-serif, system-ui; padding: 24px; }'',
      ''    a { color:#38bdf8; }'',
      ''    .card { background: rgba(39,39,42,.6); border: 1px solid rgba(63,63,70,.6); border-radius: 16px; padding: 16px; }'',
      ''    .muted { color:#a1a1aa; }'',
      ''  </style>'',
      ''</head>'',
      ''<body>'',
      ''  <div class='' @ bq @ ''card'' @ bq @ ''>'',
      ''    <h2 style='' @ bq @ ''margin:0 0 8px 0'' @ bq @ ''>Search temporarily unavailable</h2>'',
      ''    <p class='' @ bq @ ''muted'' @ bq @ '' style='' @ bq @ ''margin:0 0 12px 0'' @ bq @ ''>Google CSE API request failed. You can still open the web search directly:</p>'',
      ''    '']\<close>

definition fallback_after_link :: string where
  \<open>fallback_after_link = join nl
     [[],
      ''  </div>'',
      ''</body>'',
      ''</html>'']\<close>

definition google_url :: "string \<Rightarrow> string" where
  "google_url safe_q = ''https://www.google.com/search?q='' @ safe_q"

definition fallback_link :: "string \<Rightarrow> string" where
  \<open>fallback_link safe_q =
     ''<a href='' @ bq @ esc (google_url safe_q) @ bq @ '' target='' @ bq @ ''_blank'' @ bq @ ''>Open Google search</a>''\<close>

definition fallback_page :: "string \<Rightarrow> string" where
  "fallback_page safe_q = fallback_before_link @ fallback_link safe_q @ fallback_after_link"

definition result_row :: "cse_item \<Rightarrow> string" where
  \<open>result_row it =
     (let title = esc (or_empty (item_title it));
          link = esc (or_empty (item_link it));
          snippet = esc (or_empty (item_snippet it));
          display = esc (or_empty (item_displayLink it))
      in join nl
        [[],
         ''      <div class='' @ bq @ ''result'' @ bq @ ''>'',
         ''        <a class='' @ bq @ ''title'' @ bq @ '' href='' @ bq @ link @ bq @ ''>'' @ title @ ''</a>'',
         ''        <div class='' @ bq @ ''meta'' @ bq @ ''>'' @ display @ ''</div>'',
         ''        <div class='' @ bq @ ''snippet'' @ bq @ ''>'' @ snippet @ ''</div>'',
         ''      </div>'',
         ''            ''])\<close>

definition results_page :: "world \<Rightarrow> string \<Rightarrow> cse_item list \<Rightarrow> string \<Rightarrow> string" where
  \<open>results_page w safe_q its total_results =
     (let rows = map result_row its;
          results_html = (if rows \<noteq> [] then join [] rows else no_results_html w)
      in join nl
        [''<!doctype html>'',
         ''<html>'',
         ''<head>'',
         ''  <meta charset='' @ bq @ ''utf-8'' @ bq @ '' />'',
         ''  <meta name='' @ bq @ ''viewport'' @ bq @ '' content='' @ bq @ ''width=device-width, initial-scale=1'' @ bq @ '' />'',
         ''  <title>Search: '' @ esc safe_q @ ''</title>'',
         ''  <style>'',
         ''    body { background:#0b0b0f; color:#e4e4e7; font-family: ui-sans-serif, system-ui; margin:0; }'',
         ''    .topbar { padding: 16px 20px; border-bottom: 1px solid rgba(63,63,70,.6); background: rgba(24,24,27,.8); position: sticky; top: 0; }'',
         ''    .q { font-size: 18px; font-weight: 700; margin: 0; }'',
         ''    .sub { margin: 6px 0 0 0; color:#a1a1aa; font-size: 12px; }'',
         ''    .wrap { padding: 18px 20px 28px 20px; }'',
         ''    .result { padding: 14px 14px; border: 1px solid rgba(63,63,70,.6); border-radius: 14px; background: rgba(39,39,42,.35); margin-bottom: 12px; }'',
         ''    .title { display:block; font-weight: 700; color:#38bdf8; text-decoration:none; }'',
         ''    .title:hover { text-decoration: underline; }'',
         ''    .meta { color:#34d399; font-size: 12px; margin-top: 6px; overflow:hidden; text-overflow: ellipsis; white-space:nowrap; }'',
         ''    .snippet { color:#d4d4d8; font-size: 13px; margin-top: 8px; line-height: 1.35; }'',
         ''    .muted { color:#a1a1aa; }'',
         ''  </style>'',
         ''</head>'',
         ''<body>'',
         ''  <div class='' @ bq @ ''topbar'' @ bq @ ''>'',
         ''    <p class='' @ bq @ ''q'' @ bq @ ''>'' @ esc safe_q @ ''</p>'',
         ''    <p class='' @ bq @ ''sub'' @ bq @ ''>About '' @ esc total_results @ '' results (via Custom Search)</p>'',
         ''  </div>'',
         ''  <div class='' @ bq @ ''wrap'' @ bq @ ''>'',
         ''    '' @ results_html,
         ''  </div>'',
         ''</body>'',
         ''</html>''])\<close>

text \<open>
  \<^verbatim>\<open>_render_search_results_html\<close>: whatever \<^verbatim>\<open>_google_cse_search\<close> raises is caught
  by \<^verbatim>\<open>except Exception\<close> and answered with the fallback page.
  \<^verbatim>\<open>httpx.QueryParams({'q': safe_q}).get('q')\<close> is \<^verbatim>\<open>safe_q\<close> itself.
\<close>

definition render_search_results_html :: "world \<Rightarrow> string \<Rightarrow> string" where
  "render_search_results_html w query =
     (let safe_q = strip query in
      case google_cse_search w safe_q 1 10 of
        Inl e \<Rightarrow> fallback_page safe_q
      | Inr data \<Rightarrow>
          results_page w safe_q
            (case items data of None \<Rightarrow> [] | Some its \<Rightarrow> its)
            (case totalResults data of None \<Rightarrow> ''0'' | Some t \<Rightarrow> if t = [] then ''0'' else t))"

section \<open>Endpoints\<close>

text \<open>
  A JSON response is the list of its string fields. An exception that a route does not
  catch leaves the route as it is; the framework answers it with status 500. The response
  model of the status route wants a string for the active tab and raises a validation
  error (a \<^verbatim>\<open>ValueError\<close>) on \<^verbatim>\<open>None\<close>.
\<close>

type_synonym response = "(string \<times> string) list"

definition get_tab :: "manager \<Rightarrow> string \<Rightarrow> string \<Rightarrow> tab option" where
  "get_tab m session_id tid =
     (case get_session m session_id of None \<Rightarrow> None | Some s \<Rightarrow> map_of (tabs s) tid)"

text \<open>Mutating the tab object \<^verbatim>\<open>session["tabs"][tid]\<close> in place.\<close>

definition upd_tab :: "string \<Rightarrow> string \<Rightarrow> (tab \<Rightarrow> tab) \<Rightarrow> manager \<Rightarrow> manager" where
  "upd_tab session_id tid f m =
     (case get_session m session_id of
        None \<Rightarrow> m
      | Some s \<Rightarrow>
          (case map_of (tabs s) tid of
             None \<Rightarrow> m
           | Some tb \<Rightarrow> put_session session_id (s\<lparr>tabs := dict_set tid (f tb) (tabs s)\<rparr>) m))"

text \<open>
  The three lines that record a navigation:
  \<^verbatim>\<open>tab["history"] = tab["history"][: tab["history_index"] + 1]\<close>,
  \<^verbatim>\<open>tab["history"].append(url)\<close>,
  \<^verbatim>\<open>tab["history_index"] = len(tab["history"]) - 1\<close>.
\<close>

definition push_history :: "string \<Rightarrow> tab \<Rightarrow> tab" where
  "push_history u tb =
     (let h = slice_to (history tb) (history_index tb + 1) @ [u]
      in tb\<lparr>history := h, history_index := int (length h) - 1\<rparr>)"

definition placeholder_html :: string where
  \<open>placeholder_html =
     ''<html><body style='' @ [CHR 0x27]
     @ ''background:#0b0b0f;color:#e4e4e7;font-family:system-ui;padding:24px'' @ [CHR 0x27]
     @ ''><h2>Internal page</h2><p>This page is not implemented.</p></body></html>''\<close>

definition navigate ::
  "world \<Rightarrow> string \<Rightarrow> string \<Rightarrow> string option \<Rightarrow> manager \<Rightarrow> (exn + response) \<times> manager" where
  "navigate w session_id url tab_id m =
     (case get_session m session_id of
        None \<Rightarrow> (Inl (HTTPException 404 ''Session not found''), m)
      | Some session \<Rightarrow>
          (case get_page w session_id tab_id m of
             (Inl e, m1) \<Rightarrow> (Inl (HTTPException 404 ''Session or tab not found''), m1)
           | (Inr (tid, pg), m1) \<Rightarrow>
               if is_internal url then
                 (case parse_internal_search w url of
                    Inl e \<Rightarrow> (Inl (HTTPException 500 (str_exn e)), m1)
                  | Inr (Some q) \<Rightarrow>
                      if \<not> pw_set_content w (render_search_results_html w q)
                      then (Inl (HTTPException 500 (pw_error w)), m1)
                      else if \<not> pw_wait_for_timeout w
                      then (Inl (HTTPException 500 (pw_error w)), m1)
                      else
                        (Inr [(''status'', ''navigated''), (''url'', url),
                              (''title'', ''Search: '' @ q), (''tab_id'', tid)],
                         upd_tab session_id tid (push_history url) m1)
                  | Inr None \<Rightarrow>
                      if \<not> pw_set_content w placeholder_html
                      then (Inl (HTTPException 500 (pw_error w)), m1)
                      else
                        (Inr [(''status'', ''navigated''), (''url'', url),
                              (''title'', ''Internal page''), (''tab_id'', tid)],
                         m1))
               else
                 (case pw_goto w url of
                    None \<Rightarrow> (Inl (HTTPException 500 (pw_error w)), m1)
                  | Some final_url \<Rightarrow>
                      let m2 = upd_tab session_id tid (push_history final_url) m1 in
                      (case pw_title w of
                         None \<Rightarrow> (Inl (HTTPException 500 (pw_error w)), m2)
                       | Some t \<Rightarrow>
                           (Inr [(''status'', ''navigated''), (''url'', final_url),
                                 (''title'', t), (''tab_id'', tid)],
                            m2)))))"

definition go_back ::
  "world \<Rightarrow> string \<Rightarrow> string option \<Rightarrow> manager \<Rightarrow> (exn + response) \<times> manager" where
  "go_back w session_id tab_id m =
     (case get_session m session_id of
        None \<Rightarrow> (Inl (HTTPException 404 ''Session not found''), m)
      | Some session \<Rightarrow>
          (case get_page w session_id tab_id m of
             (Inl e, m1) \<Rightarrow> (Inl (HTTPException 404 ''Session or tab not found''), m1)
           | (Inr (tid, pg), m1) \<Rightarrow>
               (case get_tab m1 session_id tid of
                  None \<Rightarrow> (Inl (HTTPException 404 ''Session or tab not found''), m1)
                | Some tb \<Rightarrow>
                    if history_index tb > 0 then
                      let m2 = upd_tab session_id tid
                                 (\<lambda>t. t\<lparr>history_index := history_index t - 1\<rparr>) m1 in
                      if \<not> pw_go_back w then (Inl (PlaywrightError (pw_error w)), m2)
                      else (Inr [(''status'', ''success''), (''url'', pw_url w), (''tab_id'', tid)], m2)
                    else (Inr [(''status'', ''no_history''), (''tab_id'', tid)], m1))))"

definition go_forward ::
  "world \<Rightarrow> string \<Rightarrow> string option \<Rightarrow> manager \<Rightarrow> (exn + response) \<times> manager" where
  "go_forward w session_id tab_id m =
     (case get_session m session_id of
        None \<Rightarrow> (Inl (HTTPException 404 ''Session not found''), m)
      | Some session \<Rightarrow>
          (case get_page w session_id tab_id m of
             (Inl e, m1) \<Rightarrow> (Inl (HTTPException 404 ''Session or tab not found''), m1)
           | (Inr (tid, pg), m1) \<Rightarrow>
               (case get_tab m1 session_id tid of
                  None \<Rightarrow> (Inl (HTTPException 404 ''Session or tab not found''), m1)
                | Some tb \<Rightarrow>
                    if history_index tb < int (length (history tb)) - 1 then
                      let m2 = upd_tab session_id tid
                                 (\<lambda>t. t\<lparr>history_index := history_index t + 1\<rparr>) m1 in
                      if \<not> pw_go_forward w then (Inl (PlaywrightError (pw_error w)), m2)
                      else (Inr [(''status'', ''success''), (''url'', pw_url w), (''tab_id'', tid)], m2)
                    else (Inr [(''status'', ''no_forward_history''), (''tab_id'', tid)], m1))))"

definition refresh ::
  "world \<Rightarrow> string \<Rightarrow> string option \<Rightarrow> manager \<Rightarrow> (exn + response) \<times> manager" where
  "refresh w session_id tab_id m =
     (case get_page w session_id tab_id m of
        (Inl e, m1) \<Rightarrow> (Inl (HTTPException 404 ''Session or tab not found''), m1)
      | (Inr (tid, pg), m1) \<Rightarrow>
          if \<not> pw_reload w then (Inl (PlaywrightError (pw_error w)), m1)
          else (Inr [(''status'', ''refreshed''), (''url'', pw_url w), (''tab_id'', tid)], m1))"

text \<open>
  \<^verbatim>\<open>click\<close>, \<^verbatim>\<open>type_text\<close>, \<^verbatim>\<open>keypress\<close> and \<^verbatim>\<open>scroll\<close> differ in the engine call
  and in the status word (\<open>clicked\<close>, \<open>typed\<close>, \<open>pressed\<close>, \<open>scrolled\<close>) only.
\<close>

definition input_action ::
  "string \<Rightarrow> world \<Rightarrow> string \<Rightarrow> string option \<Rightarrow> manager \<Rightarrow> (exn + response) \<times> manager" where
  "input_action status w session_id tab_id m =
     (case get_page w session_id tab_id m of
        (Inl e, m1) \<Rightarrow> (Inl (HTTPException 404 ''Session or tab not found''), m1)
      | (Inr (tid, pg), m1) \<Rightarrow>
          if \<not> pw_input w then (Inl (PlaywrightError (pw_error w)), m1)
          else (Inr [(''status'', status), (''tab_id'', tid)], m1))"

definition get_screenshot ::
  "world \<Rightarrow> string \<Rightarrow> string option \<Rightarrow> manager \<Rightarrow> (exn + response) \<times> manager" where
  "get_screenshot w session_id tab_id m =
     (case get_page w session_id tab_id m of
        (Inl e, m1) \<Rightarrow> (Inl (HTTPException 404 ''Session or tab not found''), m1)
      | (Inr (tid, pg), m1) \<Rightarrow>
          (case pw_screenshot w of
             None \<Rightarrow> (Inl (HTTPException 500 (pw_error w)), m1)
           | Some b64 \<Rightarrow>
               (case pw_title w of
                  None \<Rightarrow> (Inl (HTTPException 500 (pw_error w)), m1)
                | Some t \<Rightarrow>
                    (Inr [(''screenshot'', ''data:image/jpeg;base64,'' @ b64), (''url'', pw_url w),
                          (''title'', t), (''tab_id'', tid)], m1))))"

definition bool_str :: "bool \<Rightarrow> string" where
  "bool_str b = (if b then ''true'' else ''false'')"

definition get_session_status ::
  "world \<Rightarrow> string \<Rightarrow> string option \<Rightarrow> manager \<Rightarrow> (exn + response) \<times> manager" where
  "get_session_status w session_id tab_id m =
     (case get_session m session_id of
        None \<Rightarrow> (Inl (HTTPException 404 ''Session not found''), m)
      | Some session \<Rightarrow>
          (case get_page w session_id tab_id m of
             (Inl e, m1) \<Rightarrow> (Inl (HTTPException 404 ''Tab not found''), m1)
           | (Inr (tid, pg), m1) \<Rightarrow>
               (case get_tab m1 session_id tid of
                  None \<Rightarrow> (Inl (HTTPException 404 ''Tab not found''), m1)
                | Some tb \<Rightarrow>
                    (case pw_title w of
                       None \<Rightarrow> (Inl (PlaywrightError (pw_error w)), m1)
                     | Some t \<Rightarrow>
                         (case (case get_session m1 session_id of
                                  None \<Rightarrow> None | Some s \<Rightarrow> active_tab_id s) of
                            None \<Rightarrow> (Inl (ValueError ''active_tab_id''), m1)
                          | Some a \<Rightarrow>
                              (Inr [(''session_id'', session_id),
                                    (''active_tab_id'', a),
                                    (''current_url'', pw_url w),
                                    (''title'', t),
                                    (''can_go_back'', bool_str (history_index tb > 0)),
                                    (''can_go_forward'',
                                       bool_str (history_index tb < int (length (history tb)) - 1))],
                               m1))))))"

section \<open>WebSocket streaming\<close>

text \<open>
  One connection is the local variables of \<^verbatim>\<open>websocket_endpoint\<close> together with the
  socket, which is the list \<open>sent\<close> of the payloads handed to \<^verbatim>\<open>websocket.send_json\<close>,
  oldest first, and the close code once \<^verbatim>\<open>websocket.close\<close> was called. What the
  transport does with a payload is outside the model.
\<close>

datatype jv = JNull | JStr string | JTime int

type_synonym payload = "(string \<times> jv) list"

fun jopt :: "string option \<Rightarrow> jv" where
  "jopt None = JNull"
| "jopt (Some s) = JStr s"

record conn =
  streaming :: bool
  local_active_tab_id :: "string option"
  is_navigating :: bool
  last_sent_state :: "string option"
  sent :: "payload list"
  closed :: "nat option"

definition send_json :: "payload \<Rightarrow> conn \<Rightarrow> conn" where
  "send_json p c = c\<lparr>sent := sent c @ [p]\<rparr>"

text \<open>\<^verbatim>\<open>payload.update(extra)\<close>; an absent \<^verbatim>\<open>extra\<close> is the empty dict.\<close>

definition dict_update :: "('k \<times> 'v) list \<Rightarrow> ('k \<times> 'v) list \<Rightarrow> ('k \<times> 'v) list" where
  "dict_update extra d = fold (\<lambda>kv. dict_set (fst kv) (snd kv)) extra d"

definition send_state :: "world \<Rightarrow> string \<Rightarrow> payload \<Rightarrow> conn \<Rightarrow> conn" where
  "send_state w state extra c =
     (if Some state = last_sent_state c then c
      else
        send_json
          (dict_update extra
             [(''type'', JStr ''state''), (''state'', JStr state), (''ts'', JTime (now w)),
              (''tab_id'', jopt (local_active_tab_id c))])
          (c\<lparr>last_sent_state := Some state\<rparr>))"

definition ws_open :: "world \<Rightarrow> string \<Rightarrow> manager \<Rightarrow> conn" where
  "ws_open w session_id m =
     (let c0 = \<lparr>streaming = True, local_active_tab_id = None, is_navigating = False,
                last_sent_state = None, sent = [], closed = None\<rparr> in
      case get_session m session_id of
        None \<Rightarrow> c0\<lparr>streaming := False, closed := Some 4004\<rparr>
      | Some session \<Rightarrow>
          send_state w ''connected'' [(''session_id'', JStr session_id)]
            (c0\<lparr>local_active_tab_id := active_tab_id session\<rparr>))"

text \<open>One turn of the \<^verbatim>\<open>while streaming\<close> loop of \<^verbatim>\<open>stream_screenshots\<close>.\<close>

definition stream_step :: "world \<Rightarrow> string \<Rightarrow> conn \<times> manager \<Rightarrow> conn \<times> manager" where
  "stream_step w session_id cm =
     (let c = fst cm; m = snd cm in
      case get_page w session_id (local_active_tab_id c) m of
        (Inl e, m1) \<Rightarrow> (send_state w ''tab_missing'' [] c, m1)
      | (Inr (tid, pg), m1) \<Rightarrow>
          if is_navigating c then (c, m1)
          else (case pw_screenshot w of
                  None \<Rightarrow> (c, m1)
                | Some b64 \<Rightarrow>
                    (case pw_title w of
                       None \<Rightarrow> (c, m1)
                     | Some t \<Rightarrow>
                         (send_json
                            [(''type'', JStr ''screenshot''),
                             (''data'', JStr (''data:image/jpeg;base64,'' @ b64)),
                             (''url'', JStr (pw_url w)),
                             (''title'', JStr t),
                             (''tab_id'', jopt (local_active_tab_id c)),
                             (''ts'', JTime (now w))] c, m1))))"

text \<open>
  A received message is the fields the loop reads from it. A turn of the command loop
  ends in \<open>Continue\<close> (the loop goes on), \<open>Return\<close> (the handler returned) or
  \<open>Raised\<close> (an exception left the loop).
\<close>

record event =
  ev_type :: string
  tabId :: "string option"
  ev_url :: "string option"

datatype ws_outcome = Continue | Return | Raised exn

text \<open>
  The body of the \<^verbatim>\<open>try\<close> of the \<^verbatim>\<open>navigate\<close> command: the page is loaded or
  synthesized, then the history of the tab named by the command (or by the local active
  pointer) is updated if that tab is still there.
\<close>

definition ws_navigate_body ::
  "world \<Rightarrow> string \<Rightarrow> string option \<Rightarrow> string \<Rightarrow> manager \<Rightarrow> (exn + unit) \<times> manager" where
  "ws_navigate_body w session_id tab_id url m =
     (let loaded =
        (if is_internal url then
           (case parse_internal_search w url of
              Inl e \<Rightarrow> Inl e
            | Inr (Some q) \<Rightarrow>
                if \<not> pw_set_content w (render_search_results_html w q)
                then Inl (PlaywrightError (pw_error w))
                else if \<not> pw_wait_for_timeout w then Inl (PlaywrightError (pw_error w))
                else Inr url
            | Inr None \<Rightarrow>
                if \<not> pw_set_content w placeholder_html then Inl (PlaywrightError (pw_error w))
                else Inr url)
         else (case pw_goto w url of
                 None \<Rightarrow> Inl (PlaywrightError (pw_error w))
               | Some final_url \<Rightarrow> Inr final_url))
      in case loaded of
           Inl e \<Rightarrow> (Inl e, m)
         | Inr u \<Rightarrow>
             (case tab_id of
                None \<Rightarrow> (Inr (), m)
              | Some tid \<Rightarrow> (Inr (), upd_tab session_id tid (push_history u) m)))"

definition ws_activate_tab ::
  "world \<Rightarrow> string \<Rightarrow> event \<Rightarrow> conn \<Rightarrow> manager \<Rightarrow> ws_outcome \<times> conn \<times> manager" where
  "ws_activate_tab w session_id data c m =
     (case tabId data of
        None \<Rightarrow> (Continue, c, m)
      | Some tab_id \<Rightarrow>
          if tab_id = [] then (Continue, c, m)
          else (case activate_tab w session_id tab_id m of
                  (Inr u, m1) \<Rightarrow>
                    (Continue,
                     send_state w ''tab_activated'' [(''tab_id'', JStr tab_id)]
                       (c\<lparr>local_active_tab_id := Some tab_id\<rparr>), m1)
                | (Inl e, m1) \<Rightarrow>
                    (Continue,
                     send_json [(''type'', JStr ''error''), (''message'', JStr ''Tab not found''),
                                (''tab_id'', JStr tab_id)] c, m1)))"

definition ws_new_tab ::
  "world \<Rightarrow> string \<Rightarrow> conn \<Rightarrow> manager \<Rightarrow> ws_outcome \<times> conn \<times> manager" where
  "ws_new_tab w session_id c m =
     (case create_tab w session_id m of
        (Inr new_id, m1) \<Rightarrow>
          (Continue,
           send_json [(''type'', JStr ''tab_created''), (''tab_id'', JStr new_id)]
             (c\<lparr>local_active_tab_id := Some new_id\<rparr>), m1)
      | (Inl e, m1) \<Rightarrow>
          (Continue,
           send_json [(''type'', JStr ''error''), (''message'', JStr (str_exn e))] c, m1))"

definition ws_close_tab ::
  "world \<Rightarrow> string \<Rightarrow> event \<Rightarrow> conn \<Rightarrow> manager \<Rightarrow> ws_outcome \<times> conn \<times> manager" where
  "ws_close_tab w session_id data c m =
     (case tabId data of
        None \<Rightarrow> (Continue, c, m)
      | Some close_id \<Rightarrow>
          if close_id = [] then (Continue, c, m)
          else (case close_tab w session_id close_id m of
                  (Inr u, m1) \<Rightarrow>
                    (case get_session m1 session_id of
                       None \<Rightarrow>
                         (Return,
                          (send_json [(''type'', JStr ''session_closed'')] c)
                            \<lparr>closed := Some 1000\<rparr>, m1)
                     | Some session \<Rightarrow>
                         (Continue,
                          send_json
                            [(''type'', JStr ''tab_closed''), (''tab_id'', JStr close_id),
                             (''active_tab_id'', jopt (active_tab_id session))]
                            (c\<lparr>local_active_tab_id := active_tab_id session\<rparr>), m1))
                | (Inl e, m1) \<Rightarrow>
                    (Continue,
                     send_json [(''type'', JStr ''error''), (''message'', JStr ''Tab not found'')] c,
                     m1)))"

definition ws_navigate ::
  "world \<Rightarrow> string \<Rightarrow> event \<Rightarrow> string option \<Rightarrow> conn \<Rightarrow> manager
     \<Rightarrow> ws_outcome \<times> conn \<times> manager" where
  "ws_navigate w session_id data tab_id c m =
     (case ev_url data of
        None \<Rightarrow> (Continue, c, m)
      | Some url \<Rightarrow>
          if url = [] then (Continue, c, m)
          else
            let c1 = send_state w ''navigating'' [] (c\<lparr>is_navigating := True\<rparr>);
                r = ws_navigate_body w session_id tab_id url m;
                c2 = (case fst r of
                        Inr u \<Rightarrow> c1
                      | Inl e \<Rightarrow>
                          send_json [(''type'', JStr ''error''),
                                     (''message'', JStr (str_exn e)),
                                     (''tab_id'', jopt tab_id)] c1)
            in (Continue, send_state w ''idle'' [] (c2\<lparr>is_navigating := False\<rparr>), snd r))"

definition ws_back ::
  "world \<Rightarrow> string \<Rightarrow> string option \<Rightarrow> conn \<Rightarrow> manager \<Rightarrow> ws_outcome \<times> conn \<times> manager" where
  "ws_back w session_id tab_id c m =
     (case tab_id of
        None \<Rightarrow> (Continue, c, m)
      | Some tid \<Rightarrow>
          (case get_tab m session_id tid of
             None \<Rightarrow> (Continue, c, m)
           | Some tb \<Rightarrow>
               if history_index tb > 0 then
                 let m2 = upd_tab session_id tid
                            (\<lambda>t. t\<lparr>history_index := history_index t - 1\<rparr>) m in
                 if pw_go_back w then (Continue, c, m2)
                 else (Raised (PlaywrightError (pw_error w)), c, m2)
               else (Continue, c, m)))"

definition ws_forward ::
  "world \<Rightarrow> string \<Rightarrow> string option \<Rightarrow> conn \<Rightarrow> manager \<Rightarrow> ws_outcome \<times> conn \<times> manager" where
  "ws_forward w session_id tab_id c m =
     (case tab_id of
        None \<Rightarrow> (Continue, c, m)
      | Some tid \<Rightarrow>
          (case get_tab m session_id tid of
             None \<Rightarrow> (Continue, c, m)
           | Some tb \<Rightarrow>
               if history_index tb < int (length (history tb)) - 1 then
                 let m2 = upd_tab session_id tid
                            (\<lambda>t. t\<lparr>history_index := history_index t + 1\<rparr>) m in
                 if pw_go_forward w then (Continue, c, m2)
                 else (Raised (PlaywrightError (pw_error w)), c, m2)
               else (Continue, c, m)))"

text \<open>
  One turn of the command loop, in the order of the source: \<^verbatim>\<open>ping\<close>,
  \<^verbatim>\<open>activate_tab\<close>, the target tab \<^verbatim>\<open>data.get("tabId") or active_tab_id\<close>,
  \<^verbatim>\<open>new_tab\<close>, \<^verbatim>\<open>close_tab\<close>, then \<^verbatim>\<open>get_page\<close> and the commands on the page.
\<close>

definition ws_page_command ::
  "world \<Rightarrow> string \<Rightarrow> event \<Rightarrow> string option \<Rightarrow> conn \<Rightarrow> manager
     \<Rightarrow> ws_outcome \<times> conn \<times> manager" where
  "ws_page_command w session_id data tab_id c m =
     (let event_type = ev_type data in
      if event_type = ''navigate'' then ws_navigate w session_id data tab_id c m
      else if event_type = ''click'' \<or> event_type = ''type''
              \<or> event_type = ''keypress'' \<or> event_type = ''scroll'' then
        (if pw_input w then (Continue, c, m)
         else (Raised (PlaywrightError (pw_error w)), c, m))
      else if event_type = ''back'' then ws_back w session_id tab_id c m
      else if event_type = ''forward'' then ws_forward w session_id tab_id c m
      else if event_type = ''refresh'' then
        (if pw_reload w then (Continue, c, m)
         else (Raised (PlaywrightError (pw_error w)), c, m))
      else (Continue, c, m))"

definition ws_receive ::
  "world \<Rightarrow> string \<Rightarrow> event \<Rightarrow> conn \<times> manager \<Rightarrow> ws_outcome \<times> conn \<times> manager" where
  "ws_receive w session_id data cm =
     (let c = fst cm; m = snd cm; event_type = ev_type data in
      if event_type = ''ping'' then
        (Continue, send_json [(''type'', JStr ''pong''), (''ts'', JTime (now w))] c, m)
      else if event_type = ''activate_tab'' then ws_activate_tab w session_id data c m
      else
        let tab_id = py_or (tabId data) (local_active_tab_id c) in
        if event_type = ''new_tab'' then ws_new_tab w session_id c m
        else if event_type = ''close_tab'' then ws_close_tab w session_id data c m
        else
          (case get_page w session_id tab_id m of
             (Inl e, m1) \<Rightarrow>
               (Continue,
                send_json [(''type'', JStr ''error''),
                           (''message'', JStr ''Session or tab not found'')] c, m1)
           | (Inr (rtid, pg), m1) \<Rightarrow> ws_page_command w session_id data tab_id c m1))"

text \<open>
  The handler of one connection: the command loop takes the received messages in turn and
  the frame pump runs between them; the handler ends when a turn of the command loop
  returns or raises, and then the pump is stopped.
\<close>

datatype turn = Receive world event | Stream world

fun conn_run :: "string \<Rightarrow> turn list \<Rightarrow> conn \<times> manager \<Rightarrow> conn \<times> manager" where
  "conn_run session_id [] cm = cm"
| "conn_run session_id (Stream w # ts) cm = conn_run session_id ts (stream_step w session_id cm)"
| "conn_run session_id (Receive w data # ts) cm =
     (case ws_receive w session_id data cm of
        (Continue, cm') \<Rightarrow> conn_run session_id ts cm'
      | (Return, c', m') \<Rightarrow> (c'\<lparr>streaming := False\<rparr>, m')
      | (Raised e, c', m') \<Rightarrow> (c'\<lparr>streaming := False\<rparr>, m'))"

text \<open>
  The state notifications among the payloads sent on a connection, as the values of their
  \<^verbatim>\<open>state\<close> field, oldest first; a run of requests to \<^verbatim>\<open>send_state\<close>, each with
  its own clock reading; and the extras of the call sites, which never carry the keys
  \<^verbatim>\<open>type\<close> or \<^verbatim>\<open>state\<close>.
\<close>

definition is_state_msg :: "payload \<Rightarrow> bool" where
  "is_state_msg p = (map_of p ''type'' = Some (JStr ''state''))"

definition states_sent :: "conn \<Rightarrow> jv option list" where
  "states_sent c = map (\<lambda>p. map_of p ''state'') (filter is_state_msg (sent c))"

definition send_states :: "(world \<times> string \<times> payload) list \<Rightarrow> conn \<Rightarrow> conn" where
  "send_states reqs c = fold (\<lambda>r. send_state (fst r) (fst (snd r)) (snd (snd r))) reqs c"

definition extra_ok :: "payload \<Rightarrow> bool" where
  "extra_ok extra = (\<not> has_key ''type'' extra \<and> \<not> has_key ''state'' extra)"

text \<open>
  What the sender relies on: \<^verbatim>\<open>last_sent_state\<close> is the state of the latest state
  notification in the log, and no two neighbours among them are equal.
\<close>

definition conn_ok :: "conn \<Rightarrow> bool" where
  "conn_ok c =
     (distinct_adj (states_sent c)
      \<and> (states_sent c \<noteq> [] \<longrightarrow> last (states_sent c) = Some (jopt (last_sent_state c))))"

section \<open>Operations on the registry\<close>

text \<open>
  The requests that reach the registry, from the routes, from the methods of the manager
  and from a connection in any local state, are collected in one datatype; \<open>run\<close> is
  the registry after one of them when no other coroutine runs while it is suspended.
\<close>

datatype op =
    CreateSession
  | CloseSession string
  | CreateTab string
  | CloseTab string string
  | ActivateTab string string
  | GetSessionStatus string "string option"
  | Navigate string string "string option"
  | GoBack string "string option"
  | GoForward string "string option"
  | Refresh string "string option"
  | GetScreenshot string "string option"
  | InputAction string string "string option"
  | StreamStep string conn
  | WsReceive string event conn

fun run :: "world \<Rightarrow> op \<Rightarrow> manager \<Rightarrow> manager" where
  "run w CreateSession m = snd (create_session w m)"
| "run w (CloseSession sid) m = close_session sid m"
| "run w (CreateTab sid) m = snd (create_tab w sid m)"
| "run w (CloseTab sid tid) m = snd (close_tab w sid tid m)"
| "run w (ActivateTab sid tid) m = snd (activate_tab w sid tid m)"
| "run w (GetSessionStatus sid t) m = snd (get_session_status w sid t m)"
| "run w (Navigate sid url t) m = snd (navigate w sid url t m)"
| "run w (GoBack sid t) m = snd (go_back w sid t m)"
| "run w (GoForward sid t) m = snd (go_forward w sid t m)"
| "run w (Refresh sid t) m = snd (refresh w sid t m)"
| "run w (GetScreenshot sid t) m = snd (get_screenshot w sid t m)"
| "run w (InputAction status sid t) m = snd (input_action status w sid t m)"
| "run w (StreamStep sid c) m = snd (stream_step w sid (c, m))"
| "run w (WsReceive sid ev c) m = snd (snd (ws_receive w sid ev (c, m)))"

section \<open>Suspension points\<close>

text \<open>
  The coroutines of the process take turns at their awaits, so what changes the registry
  in one piece is the code between two awaits. Where an operation writes the registry in
  more than one piece, or writes after an await what it read before it, the pieces are
  steps of their own:
  \<^item> \<^verbatim>\<open>close_tab\<close> pops the tab, awaits \<^verbatim>\<open>tab["page"].close()\<close>, and then either
    repoints the active pointer or, when no tab is left, enters \<^verbatim>\<open>close_session\<close>,
    which awaits \<^verbatim>\<open>ctx.close()\<close> before it pops the session (\<open>CloseTabPop\<close>,
    \<open>CloseTabRest\<close>, and \<open>CloseSession\<close> for the last pop);
  \<^item> the reaper pops a tab after the await that follows its test (\<open>ReapPop\<close>) and
    closes an expired session by \<^verbatim>\<open>close_session\<close>;
  \<^item> a navigation resolves its tab with \<^verbatim>\<open>get_page\<close> (\<open>Touch\<close>), awaits the search
    and the engine, and then records the URL in the history (\<open>Record\<close>).
  Every other operation writes the registry in one piece (\<^verbatim>\<open>create_session\<close> and
  \<^verbatim>\<open>create_tab\<close> after their awaits, the others before), which is its \<open>run\<close>; the flags
  \<open>playwright\<close> and \<open>browser\<close> are written by \<^verbatim>\<open>initialize\<close> alone. A piece resumed
  after an await works on the session or tab object it held before; when that object has
  left the registry the piece changes nothing registered, which is what a lookup by
  identifier gives. A schedule is any list of steps: it does not ask that a piece follows
  the piece before it, so the registries of schedules include every registry the process
  reaches.
\<close>

definition upd_session :: "string \<Rightarrow> (session \<Rightarrow> session) \<Rightarrow> manager \<Rightarrow> manager" where
  "upd_session session_id f m =
     (case get_session m session_id of
        None \<Rightarrow> m
      | Some s \<Rightarrow> put_session session_id (f s) m)"

text \<open>\<^verbatim>\<open>close_tab\<close> as far as its await: the lookups and \<^verbatim>\<open>tabs.pop(tab_id)\<close>.\<close>

definition close_tab_pop :: "string \<Rightarrow> string \<Rightarrow> manager \<Rightarrow> manager" where
  "close_tab_pop session_id tab_id m =
     upd_session session_id
       (\<lambda>s. if has_key tab_id (tabs s) then s\<lparr>tabs := dict_pop tab_id (tabs s)\<rparr> else s) m"

text \<open>
  \<^verbatim>\<open>close_tab\<close> from its await on: with no tab left it enters \<^verbatim>\<open>close_session\<close> and
  is suspended again before anything is written; otherwise it repoints and stamps.
\<close>

definition close_tab_rest :: "world \<Rightarrow> string \<Rightarrow> string \<Rightarrow> manager \<Rightarrow> manager" where
  "close_tab_rest w session_id tab_id m =
     upd_session session_id
       (\<lambda>s. if tabs s = [] then s
            else s\<lparr>active_tab_id :=
                     (if active_tab_id s = Some tab_id then first_key (tabs s)
                      else active_tab_id s),
                   last_used := now w\<rparr>) m"

datatype step =
    Whole world op
  | CloseTabPop string string
  | CloseTabRest world string string
  | ReapPop string string
  | Touch world string "string option"
  | Record string string string

fun do_step :: "step \<Rightarrow> manager \<Rightarrow> manager" where
  "do_step (Whole w x) m = run w x m"
| "do_step (CloseTabPop sid tid) m = close_tab_pop sid tid m"
| "do_step (CloseTabRest w sid tid) m = close_tab_rest w sid tid m"
| "do_step (ReapPop sid tid) m = upd_session sid (reap_pop tid) m"
| "do_step (Touch w sid t) m = snd (get_page w sid t m)"
| "do_step (Record sid tid url) m = upd_tab sid tid (push_history url) m"

fun sched :: "step list \<Rightarrow> manager \<Rightarrow> manager" where
  "sched [] m = m"
| "sched (x # xs) m = sched xs (do_step x m)"


text \<open>The registry of a fresh process.\<close>

definition manager0 :: manager where
  "manager0 = \<lparr>sessions = [], playwright = False, browser = False\<rparr>"

section \<open>Invariants\<close>

definition all_sessions :: "(session \<Rightarrow> bool) \<Rightarrow> manager \<Rightarrow> bool" where
  "all_sessions P m = (\<forall>p \<in> set (sessions m). P (snd p))"

definition session_has_tab :: "manager \<Rightarrow> bool" where
  "session_has_tab m = all_sessions (\<lambda>s. tabs s \<noteq> []) m"

definition tab_cursor_ok :: "tab \<Rightarrow> bool" where
  "tab_cursor_ok tb = (- 1 \<le> history_index tb \<and> history_index tb < int (length (history tb)))"

definition session_cursors_ok :: "session \<Rightarrow> bool" where
  "session_cursors_ok s = (\<forall>q \<in> set (tabs s). tab_cursor_ok (snd q))"

definition cursors_ok :: "manager \<Rightarrow> bool" where
  "cursors_ok m = all_sessions session_cursors_ok m"



text \<open>A Python dict has one entry for a key.\<close>

definition session_keys_distinct :: "manager \<Rightarrow> bool" where
  "session_keys_distinct m = distinct (map fst (sessions m))"

section \<open>Example values\<close>

text \<open>
  A world in which the engine answers every call and the search API is not configured, and
  a registry with one session of two tabs, used to run the theorems on concrete inputs.
\<close>

definition example_world :: world where
  "example_world =
     \<lparr>now = 5000000000, uuid1 = ''u1'', uuid2 = ''u2'',
      SESSION_TTL_SECONDS = 1800, TAB_TTL_SECONDS = 1800,
      GOOGLE_CSE_API_KEY = None, GOOGLE_CSE_CX = None,
      total_seconds_gt = (\<lambda>d ttl. d > ttl * 1000000),
      no_results_html = ''No results'',
      cse_get = (\<lambda>q s n. Inl ''timeout''),
      url_q = (\<lambda>u. Inr (Some [''hello''])),
      pw_error = ''engine error'',
      pw_start = True, pw_launch = True, pw_new_context = Some 7, pw_new_page = Some 8,
      pw_goto = (\<lambda>u. Some u), pw_set_content = (\<lambda>h. True), pw_wait_for_timeout = True,
      pw_title = Some ''Title'', pw_url = ''https://example.org/'',
      pw_go_back = True, pw_go_forward = True, pw_reload = True, pw_input = True,
      pw_screenshot = Some ''AAAA''\<rparr>"

definition example_tab1 :: tab where
  "example_tab1 =
     \<lparr>page = 2, tab_created_at = 0, tab_last_used = 0,
      history = [''https://a.example/'', ''https://b.example/''], history_index = 1\<rparr>"

definition example_tab2 :: tab where
  "example_tab2 =
     \<lparr>page = 3, tab_created_at = 10, tab_last_used = 4000000000,
      history = [], history_index = - 1\<rparr>"

definition example_session :: session where
  "example_session =
     \<lparr>browser_context = 1,
      tabs = [(''t1'', example_tab1), (''t2'', example_tab2)],
      active_tab_id = Some ''t1'', created_at = 0, last_used = 4000000000\<rparr>"

definition example_manager :: manager where
  "example_manager =
     \<lparr>sessions = [(''s1'', example_session)], playwright = True, browser = True\<rparr>"

definition one_tab_session :: session where
  "one_tab_session =
     \<lparr>browser_context = 7,
      tabs = [(''u2'', \<lparr>page = 8, tab_created_at = 0, tab_last_used = 0,
                       history = [], history_index = - 1\<rparr>)],
      active_tab_id = Some ''u2'', created_at = 0, last_used = 0\<rparr>"

definition one_tab_manager :: manager where
  "one_tab_manager = \<lparr>sessions = [(''u1'', one_tab_session)], playwright = True, browser = True\<rparr>"

definition example_conn :: conn where
  "example_conn = ws_open example_world ''s1'' example_manager"

section \<open>Facts about dictionaries\<close>

lemma set_dict_set: "set (dict_set k v d) \<subseteq> insert (k, v) (set d)"
  by (induction d) auto

lemma map_of_dict_set: "map_of (dict_set k v d) = (map_of d)(k \<mapsto> v)"
  by (induction d) (auto simp: fun_eq_iff)

lemma dict_set_not_Nil: "dict_set k v d \<noteq> []"
  by (cases d) auto

lemma set_dict_pop: "set (dict_pop k d) \<subseteq> set d"
  by (induction d) auto

lemma map_of_dict_pop_other: "k' \<noteq> k \<Longrightarrow> map_of (dict_pop k d) k' = map_of d k'"
  by (induction d) auto

lemma map_of_dict_pop_same: "distinct (map fst d) \<Longrightarrow> map_of (dict_pop k d) k = None"
  by (induction d) (auto simp: map_of_eq_None_iff)

lemma length_dict_pop: "has_key k d \<Longrightarrow> Suc (length (dict_pop k d)) = length d"
  by (induction d) (auto simp: has_key_def)

lemma length_dict_pop_le: "length d \<le> Suc (length (dict_pop k d))"
  by (induction d) auto

lemma keys_dict_set: "fst ` set (dict_set k v d) = insert k (fst ` set d)"
  by (induction d) auto

lemma distinct_dict_set: "distinct (map fst d) \<Longrightarrow> distinct (map fst (dict_set k v d))"
  by (induction d) (auto simp: keys_dict_set)

lemma distinct_dict_pop: "distinct (map fst d) \<Longrightarrow> distinct (map fst (dict_pop k d))"
proof (induction d)
  case (Cons p ps)
  then show ?case using set_dict_pop[of k ps] by auto
qed simp

lemma dict_pop_dict_set: "dict_pop k (dict_set k v d) = dict_pop k d"
  by (induction d) auto

lemma first_key_has_key: "first_key d = Some k \<Longrightarrow> has_key k d"
  by (cases d) (auto simp: has_key_def)

lemma first_key_None: "first_key d = None \<longleftrightarrow> d = []"
  by (cases d) auto

section \<open>Looking up sessions and tabs\<close>

lemma get_session_put_same: "get_session (put_session sid s m) sid = Some s"
  by (simp add: get_session_def put_session_def map_of_dict_set)

lemma get_session_put_other: "sid' \<noteq> sid \<Longrightarrow> get_session (put_session sid s m) sid' = get_session m sid'"
  by (simp add: get_session_def put_session_def map_of_dict_set)

lemma get_page_resolved:
  assumes "get_session m sid = Some s" and "resolve_tab s t = Inr (tid, tb)"
  shows "get_page w sid t m
           = (Inr (tid, page tb),
              put_session sid (s\<lparr>last_used := now w,
                                tabs := dict_set tid (touch_tab (now w) tb) (tabs s)\<rparr>) m)"
  using assms by (simp add: get_page_def)

lemma get_tab_put:
  "get_tab (put_session sid s m) sid tid = map_of (tabs s) tid"
  by (simp add: get_tab_def get_session_put_same)

lemma get_tab_after_get_page:
  assumes "get_session m sid = Some s" and "resolve_tab s t = Inr (tid, tb)"
  shows "get_tab (snd (get_page w sid t m)) sid tid = Some (touch_tab (now w) tb)"
  using assms by (simp add: get_page_resolved get_tab_put map_of_dict_set)

lemma get_tab_upd_tab:
  "get_tab m sid tid = Some tb \<Longrightarrow> get_tab (upd_tab sid tid f m) sid tid = Some (f tb)"
  by (auto simp: get_tab_def upd_tab_def get_session_put_same map_of_dict_set split: option.splits)

lemma dict_set_twice: "dict_set k v (dict_set k v' d) = dict_set k v d"
  by (induction d) auto

lemma put_session_twice: "put_session sid s (put_session sid s' m) = put_session sid s m"
  by (simp add: put_session_def dict_set_twice)

lemma get_session_upd_session:
  "get_session m sid = Some s \<Longrightarrow> get_session (upd_session sid f m) sid = Some (f s)"
  by (simp add: upd_session_def get_session_put_same)

section \<open>Preservation through the routes\<close>

text \<open>
  A property of the registry that the methods of the manager keep is kept by every route
  and by every turn of a connection, since they reach the registry through those methods.
\<close>

lemma navigate_pres:
  assumes gp: "\<And>w a b m. Q m \<Longrightarrow> Q (snd (get_page w a b m))"
      and ph: "\<And>a b u m. Q m \<Longrightarrow> Q (upd_tab a b (push_history u) m)"
  shows "Q m \<Longrightarrow> Q (snd (navigate w sid url t m))"
  using gp[of m w sid t] ph
  by (auto simp: navigate_def Let_def split: option.splits prod.splits sum.splits)

lemma go_back_pres:
  assumes gp: "\<And>w a b m. Q m \<Longrightarrow> Q (snd (get_page w a b m))"
      and dec: "\<And>a b tb m. Q m \<Longrightarrow> get_tab m a b = Some tb \<Longrightarrow> history_index tb > 0
                  \<Longrightarrow> Q (upd_tab a b (\<lambda>t. t\<lparr>history_index := history_index t - 1\<rparr>) m)"
  shows "Q m \<Longrightarrow> Q (snd (go_back w sid t m))"
  using gp[of m w sid t] dec
  by (auto simp: go_back_def Let_def split: option.splits prod.splits sum.splits)

lemma go_forward_pres:
  assumes gp: "\<And>w a b m. Q m \<Longrightarrow> Q (snd (get_page w a b m))"
      and inc: "\<And>a b tb m. Q m \<Longrightarrow> get_tab m a b = Some tb
                  \<Longrightarrow> history_index tb < int (length (history tb)) - 1
                  \<Longrightarrow> Q (upd_tab a b (\<lambda>t. t\<lparr>history_index := history_index t + 1\<rparr>) m)"
  shows "Q m \<Longrightarrow> Q (snd (go_forward w sid t m))"
  using gp[of m w sid t] inc
  by (auto simp: go_forward_def Let_def split: option.splits prod.splits sum.splits)

lemma simple_pres:
  assumes gp: "\<And>w a b m. Q m \<Longrightarrow> Q (snd (get_page w a b m))"
  shows "Q m \<Longrightarrow> Q (snd (refresh w sid t m))"
    and "Q m \<Longrightarrow> Q (snd (input_action st w sid t m))"
    and "Q m \<Longrightarrow> Q (snd (get_screenshot w sid t m))"
    and "Q m \<Longrightarrow> Q (snd (get_session_status w sid t m))"
    and "Q m \<Longrightarrow> Q (snd (stream_step w sid (c, m)))"
  using gp[of m w sid t] gp[of m w sid "local_active_tab_id c"]
  by (auto simp: refresh_def input_action_def get_screenshot_def get_session_status_def
        stream_step_def Let_def split: option.splits prod.splits sum.splits)

lemma ws_navigate_body_pres:
  assumes ph: "\<And>a b u m. Q m \<Longrightarrow> Q (upd_tab a b (push_history u) m)"
  shows "Q m \<Longrightarrow> Q (snd (ws_navigate_body w sid t url m))"
  using ph
  by (auto simp: ws_navigate_body_def Let_def split: option.splits prod.splits sum.splits)



lemma ws_receive_pres:
  assumes gp: "\<And>w a b m. Q m \<Longrightarrow> Q (snd (get_page w a b m))"
      and ph: "\<And>a b u m. Q m \<Longrightarrow> Q (upd_tab a b (push_history u) m)"
      and dec: "\<And>a b tb m. Q m \<Longrightarrow> get_tab m a b = Some tb \<Longrightarrow> history_index tb > 0
                  \<Longrightarrow> Q (upd_tab a b (\<lambda>t. t\<lparr>history_index := history_index t - 1\<rparr>) m)"
      and inc: "\<And>a b tb m. Q m \<Longrightarrow> get_tab m a b = Some tb
                  \<Longrightarrow> history_index tb < int (length (history tb)) - 1
                  \<Longrightarrow> Q (upd_tab a b (\<lambda>t. t\<lparr>history_index := history_index t + 1\<rparr>) m)"
      and ct: "\<And>w a m. Q m \<Longrightarrow> Q (snd (create_tab w a m))"
      and cl: "\<And>w a b m. Q m \<Longrightarrow> Q (snd (close_tab w a b m))"
      and at: "\<And>w a b m. Q m \<Longrightarrow> Q (snd (activate_tab w a b m))"
  shows "Q m \<Longrightarrow> Q (snd (snd (ws_receive w sid ev (c, m))))"
proof -
  assume q: "Q m"
  have at': "Q m'" if "activate_tab w sid b m = (r, m')" for b r m'
    using at[OF q, of w sid b] that by simp
  have cl': "Q m'" if "close_tab w sid b m = (r, m')" for b r m'
    using cl[OF q, of w sid b] that by simp
  have a: "Q (snd (snd (ws_activate_tab w sid ev c m)))"
    using q
    by (auto simp: ws_activate_tab_def split: option.splits prod.splits sum.splits intro: at')
  have n: "Q (snd (snd (ws_new_tab w sid c m)))"
    using ct[OF q, of w sid]
    by (auto simp: ws_new_tab_def split: option.splits prod.splits sum.splits)
  have k: "Q (snd (snd (ws_close_tab w sid ev c m)))"
    using q
    by (auto simp: ws_close_tab_def split: option.splits prod.splits sum.splits intro: cl')
  have pc: "Q (snd (snd (ws_page_command w sid ev t c m')))" if q': "Q m'" for t m'
  proof -
    have "Q (snd (snd (ws_navigate w sid ev t c m')))"
      using ws_navigate_body_pres[of Q, OF ph q'] q'
      by (auto simp: ws_navigate_def Let_def split: option.splits)
    moreover have "Q (snd (snd (ws_back w sid t c m')))"
      using dec[OF q'] q'
      by (auto simp: ws_back_def Let_def split: option.splits)
    moreover have "Q (snd (snd (ws_forward w sid t c m')))"
      using inc[OF q'] q'
      by (auto simp: ws_forward_def Let_def split: option.splits)
    ultimately show ?thesis
      using q' by (simp add: ws_page_command_def Let_def)
  qed
  let ?t = "py_or (tabId ev) (local_active_tab_id c)"
  have g: "Q (snd (get_page w sid ?t m))" using gp q by blast
  show ?thesis
    using a n k g pc[OF g] q
    by (auto simp: ws_receive_def Let_def split: prod.splits sum.splits)
qed

section \<open>Properties of every session\<close>

lemma all_sessions_put:
  "all_sessions P m \<Longrightarrow> P s \<Longrightarrow> all_sessions P (put_session sid s m)"
  using set_dict_set[of sid s "sessions m"] by (auto simp: all_sessions_def put_session_def)

lemma all_sessions_close:
  "all_sessions P m \<Longrightarrow> all_sessions P (close_session sid m)"
  using set_dict_pop[of sid "sessions m"] by (auto simp: all_sessions_def close_session_def)

lemma all_sessions_get:
  "all_sessions P m \<Longrightarrow> get_session m sid = Some s \<Longrightarrow> P s"
  by (force simp: all_sessions_def get_session_def dest: map_of_SomeD)

lemma all_sessions_flags [simp]:
  "all_sessions P (m\<lparr>playwright := x\<rparr>) = all_sessions P m"
  "all_sessions P (m\<lparr>browser := y\<rparr>) = all_sessions P m"
  by (simp_all add: all_sessions_def)

lemma all_sessions_create_session:
  assumes "\<And>ctx tid pg t. P \<lparr>browser_context = ctx, tabs = [(tid, new_tab pg t)],
              active_tab_id = Some tid, created_at = t, last_used = t\<rparr>"
  shows "all_sessions P m \<Longrightarrow> all_sessions P (snd (create_session w m))"
proof -
  assume a: "all_sessions P m"
  have "all_sessions P (m'\<lparr>sessions := dict_set k s (sessions m)\<rparr>)" if "P s" for m' :: manager and k s
    using a that set_dict_set[of k s "sessions m"] by (auto simp: all_sessions_def)
  then show ?thesis
    using a assms
    by (auto simp: create_session_def initialize_def Let_def split: option.splits)
qed

lemma all_sessions_create_tab:
  assumes "\<And>s tid pg t. P s \<Longrightarrow>
     P (s\<lparr>tabs := dict_set tid (new_tab pg t) (tabs s), active_tab_id := Some tid, last_used := t\<rparr>)"
  shows "all_sessions P m \<Longrightarrow> all_sessions P (snd (create_tab w sid m))"
  using assms
  by (auto simp: create_tab_def Let_def split: option.splits
      intro!: all_sessions_put dest: all_sessions_get)

lemma close_session_put_session:
  "close_session sid (put_session sid s m) = m\<lparr>sessions := dict_pop sid (sessions m)\<rparr>"
  by (simp add: close_session_def put_session_def dict_pop_dict_set has_key_def map_of_dict_set)

lemma all_sessions_close_tab:
  assumes "\<And>s tid t. P s \<Longrightarrow> has_key tid (tabs s) \<Longrightarrow> dict_pop tid (tabs s) \<noteq> [] \<Longrightarrow>
     P (s\<lparr>tabs := dict_pop tid (tabs s),
          active_tab_id := (if active_tab_id s = Some tid then first_key (dict_pop tid (tabs s))
                            else active_tab_id s),
          last_used := t\<rparr>)"
  shows "all_sessions P m \<Longrightarrow> all_sessions P (snd (close_tab w sid tid m))"
proof -
  assume a: "all_sessions P m"
  have c: "all_sessions P (m\<lparr>sessions := dict_pop sid (sessions m)\<rparr>)"
    using a set_dict_pop[of sid "sessions m"] by (auto simp: all_sessions_def)
  show ?thesis
  proof (cases "get_session m sid")
    case None
    then show ?thesis using a by (simp add: close_tab_def)
  next
    case (Some s)
    then have ps: "P s" using a all_sessions_get by blast
    show ?thesis
      using Some a c assms[OF ps, of tid "now w"]
      by (auto simp: close_tab_def Let_def close_session_put_session intro!: all_sessions_put)
  qed
qed

lemma all_sessions_activate_tab:
  assumes "\<And>s tid tb t. P s \<Longrightarrow> map_of (tabs s) tid = Some tb \<Longrightarrow>
     P (s\<lparr>active_tab_id := Some tid, last_used := t,
          tabs := dict_set tid (touch_tab t tb) (tabs s)\<rparr>)"
  shows "all_sessions P m \<Longrightarrow> all_sessions P (snd (activate_tab w sid tid m))"
  using assms
  by (auto simp: activate_tab_def Let_def split: option.splits
      intro!: all_sessions_put dest: all_sessions_get)

lemma all_sessions_get_page:
  assumes "\<And>s tid tb t. P s \<Longrightarrow> map_of (tabs s) tid = Some tb \<Longrightarrow>
     P (s\<lparr>last_used := t, tabs := dict_set tid (touch_tab t tb) (tabs s)\<rparr>)"
  shows "all_sessions P m \<Longrightarrow> all_sessions P (snd (get_page w sid t m))"
  using assms
  by (auto simp: get_page_def resolve_tab_def Let_def split: option.splits sum.splits if_splits
      intro!: all_sessions_put dest: all_sessions_get)

lemma all_sessions_upd_tab:
  assumes "\<And>s tb. P s \<Longrightarrow> map_of (tabs s) tid = Some tb \<Longrightarrow> G tb \<Longrightarrow>
              P (s\<lparr>tabs := dict_set tid (f tb) (tabs s)\<rparr>)"
      and "\<And>tb. get_tab m sid tid = Some tb \<Longrightarrow> G tb"
  shows "all_sessions P m \<Longrightarrow> all_sessions P (upd_tab sid tid f m)"
  using assms
  by (auto simp: upd_tab_def get_tab_def split: option.splits
      intro!: all_sessions_put dest: all_sessions_get)

lemma all_sessions_upd_session:
  assumes "\<And>s. P s \<Longrightarrow> P (f s)"
  shows "all_sessions P m \<Longrightarrow> all_sessions P (upd_session sid f m)"
  using assms
  by (auto simp: upd_session_def split: option.splits
      intro!: all_sessions_put dest: all_sessions_get)

lemma run_pres:
  assumes gp: "\<And>w a b m. Q m \<Longrightarrow> Q (snd (get_page w a b m))"
      and ph: "\<And>a b u m. Q m \<Longrightarrow> Q (upd_tab a b (push_history u) m)"
      and dec: "\<And>a b tb m. Q m \<Longrightarrow> get_tab m a b = Some tb \<Longrightarrow> history_index tb > 0
                  \<Longrightarrow> Q (upd_tab a b (\<lambda>t. t\<lparr>history_index := history_index t - 1\<rparr>) m)"
      and inc: "\<And>a b tb m. Q m \<Longrightarrow> get_tab m a b = Some tb
                  \<Longrightarrow> history_index tb < int (length (history tb)) - 1
                  \<Longrightarrow> Q (upd_tab a b (\<lambda>t. t\<lparr>history_index := history_index t + 1\<rparr>) m)"
      and cs: "\<And>w m. Q m \<Longrightarrow> Q (snd (create_session w m))"
      and ct: "\<And>w a m. Q m \<Longrightarrow> Q (snd (create_tab w a m))"
      and cl: "\<And>w a b m. Q m \<Longrightarrow> Q (snd (close_tab w a b m))"
      and at: "\<And>w a b m. Q m \<Longrightarrow> Q (snd (activate_tab w a b m))"
      and cls: "\<And>a m. Q m \<Longrightarrow> Q (close_session a m)"
  shows "Q m \<Longrightarrow> Q (run w op m)"
proof (cases op)
  case (Navigate sid url t)
  assume "Q m" then show ?thesis
    using navigate_pres[of Q, OF gp ph] Navigate by simp
next
  case (GoBack sid t)
  assume "Q m" then show ?thesis
    using go_back_pres[of Q, OF gp dec] GoBack by simp
next
  case (GoForward sid t)
  assume "Q m" then show ?thesis
    using go_forward_pres[of Q, OF gp inc] GoForward by simp
next
  case (WsReceive sid ev c)
  assume "Q m" then show ?thesis
    using ws_receive_pres[of Q, OF gp ph dec inc ct cl at] WsReceive by simp
qed (use simple_pres[of Q, OF gp] cs ct cl at cls in auto)

lemma sched_pres:
  assumes "\<And>x m. Q m \<Longrightarrow> Q (do_step x m)"
  shows "Q m \<Longrightarrow> Q (sched xs m)"
  using assms by (induction xs arbitrary: m) auto

section \<open>A session keeps a tab\<close>

lemma sht_get_page: "session_has_tab m \<Longrightarrow> session_has_tab (snd (get_page w a b m))"
  unfolding session_has_tab_def
  by (rule all_sessions_get_page) (simp_all add: dict_set_not_Nil)

lemma sht_upd_tab: "session_has_tab m \<Longrightarrow> session_has_tab (upd_tab a b f m)"
  unfolding session_has_tab_def
  by (rule all_sessions_upd_tab[where G = "\<lambda>t. True"]) (simp_all add: dict_set_not_Nil)

lemma sht_create_session: "session_has_tab m \<Longrightarrow> session_has_tab (snd (create_session w m))"
  unfolding session_has_tab_def
  by (rule all_sessions_create_session) simp_all

lemma sht_create_tab: "session_has_tab m \<Longrightarrow> session_has_tab (snd (create_tab w a m))"
  unfolding session_has_tab_def
  by (rule all_sessions_create_tab) (simp_all add: dict_set_not_Nil)

lemma sht_close_tab: "session_has_tab m \<Longrightarrow> session_has_tab (snd (close_tab w a b m))"
  unfolding session_has_tab_def
  by (rule all_sessions_close_tab) simp_all

lemma sht_activate_tab: "session_has_tab m \<Longrightarrow> session_has_tab (snd (activate_tab w a b m))"
  unfolding session_has_tab_def
  by (rule all_sessions_activate_tab) (simp_all add: dict_set_not_Nil)

lemma session_has_tab_run: "session_has_tab m \<Longrightarrow> session_has_tab (run w op m)"
proof (rule run_pres[where Q = session_has_tab])
  show "session_has_tab (close_session a m)" if "session_has_tab m" for a m
    using that by (simp add: session_has_tab_def all_sessions_close)
qed (simp_all add: sht_get_page sht_upd_tab sht_create_session sht_create_tab sht_close_tab
       sht_activate_tab)

section \<open>The keys of the registry\<close>

lemma skd_put: "session_keys_distinct m \<Longrightarrow> session_keys_distinct (put_session a s m)"
  by (simp add: session_keys_distinct_def put_session_def distinct_dict_set)

lemma skd_close: "session_keys_distinct m \<Longrightarrow> session_keys_distinct (close_session a m)"
  by (simp add: session_keys_distinct_def close_session_def distinct_dict_pop)

lemma skd_get_page: "session_keys_distinct m \<Longrightarrow> session_keys_distinct (snd (get_page w a b m))"
  by (auto simp: get_page_def split: option.splits sum.splits intro: skd_put)

lemma skd_upd_tab: "session_keys_distinct m \<Longrightarrow> session_keys_distinct (upd_tab a b f m)"
  by (auto simp: upd_tab_def split: option.splits intro: skd_put)

lemma skd_create_session:
  "session_keys_distinct m \<Longrightarrow> session_keys_distinct (snd (create_session w m))"
  by (auto simp: create_session_def initialize_def Let_def session_keys_distinct_def
        distinct_dict_set split: option.splits)

lemma skd_create_tab: "session_keys_distinct m \<Longrightarrow> session_keys_distinct (snd (create_tab w a m))"
  by (auto simp: create_tab_def Let_def split: option.splits intro: skd_put)

lemma skd_close_tab: "session_keys_distinct m \<Longrightarrow> session_keys_distinct (snd (close_tab w a b m))"
  by (auto simp: close_tab_def Let_def split: option.splits intro: skd_put skd_close)

lemma skd_activate_tab:
  "session_keys_distinct m \<Longrightarrow> session_keys_distinct (snd (activate_tab w a b m))"
  by (auto simp: activate_tab_def split: option.splits intro: skd_put)

lemma session_keys_distinct_run:
  "session_keys_distinct m \<Longrightarrow> session_keys_distinct (run w op m)"
  by (rule run_pres[where Q = session_keys_distinct])
     (simp_all add: skd_get_page skd_upd_tab skd_create_session skd_create_tab skd_close_tab
       skd_activate_tab skd_close)

lemma skd_upd_session:
  "session_keys_distinct m \<Longrightarrow> session_keys_distinct (upd_session a f m)"
  by (auto simp: upd_session_def split: option.splits intro: skd_put)

lemma session_keys_distinct_do_step:
  "session_keys_distinct m \<Longrightarrow> session_keys_distinct (do_step x m)"
  by (cases x)
     (simp_all add: session_keys_distinct_run close_tab_pop_def close_tab_rest_def
        skd_upd_session skd_get_page skd_upd_tab)

lemma session_keys_distinct_sched: "session_keys_distinct (sched xs manager0)"
proof (rule sched_pres[where Q = session_keys_distinct])
  show "session_keys_distinct manager0"
    by (simp add: session_keys_distinct_def manager0_def)
  show "session_keys_distinct (do_step x m)" if "session_keys_distinct m" for x m
    using that by (rule session_keys_distinct_do_step)
qed

lemma dict_pop_single: "map fst d = [k] \<Longrightarrow> dict_pop k d = []"
  by (cases d) auto

lemma has_key_single: "map fst d = [k] \<Longrightarrow> has_key k d"
  by (cases d) (auto simp: has_key_def)

lemma close_last_tab:
  assumes d: "session_keys_distinct m" and g: "get_session m sid = Some s"
    and t: "map fst (tabs s) = [tid]"
  shows "fst (close_tab w sid tid m) = Inr ()"
    and "get_session (snd (close_tab w sid tid m)) sid = None"
proof -
  have c: "close_tab w sid tid m = (Inr (), m\<lparr>sessions := dict_pop sid (sessions m)\<rparr>)"
    using g t by (simp add: close_tab_def Let_def dict_pop_single has_key_single
        close_session_put_session)
  show "fst (close_tab w sid tid m) = Inr ()" using c by simp
  show "get_session (snd (close_tab w sid tid m)) sid = None"
    using c d by (simp add: get_session_def session_keys_distinct_def map_of_dict_pop_same)
qed

section \<open>The history cursor stays in range\<close>

lemma cursor_new_tab: "tab_cursor_ok (new_tab pg t)"
  by (simp add: tab_cursor_ok_def new_tab_def)

lemma cursor_touch_tab: "tab_cursor_ok tb \<Longrightarrow> tab_cursor_ok (touch_tab t tb)"
  by (simp add: tab_cursor_ok_def touch_tab_def)

lemma cursor_push_history: "tab_cursor_ok (push_history u tb)"
  by (simp add: tab_cursor_ok_def push_history_def Let_def)

lemma sco_set:
  assumes "session_cursors_ok s" and "tab_cursor_ok tb" and "tabs s' = dict_set k tb (tabs s)"
  shows "session_cursors_ok s'"
  using assms set_dict_set[of k tb "tabs s"] by (auto simp: session_cursors_ok_def)

lemma sco_pop:
  assumes "session_cursors_ok s" and "tabs s' = dict_pop k (tabs s)"
  shows "session_cursors_ok s'"
  using assms set_dict_pop[of k "tabs s"] by (auto simp: session_cursors_ok_def)

lemma sco_lookup:
  "session_cursors_ok s \<Longrightarrow> map_of (tabs s) k = Some tb \<Longrightarrow> tab_cursor_ok tb"
  by (force simp: session_cursors_ok_def dest: map_of_SomeD)

lemma cur_get_page: "cursors_ok m \<Longrightarrow> cursors_ok (snd (get_page w a b m))"
  unfolding cursors_ok_def
proof (rule all_sessions_get_page)
  fix s tid tb t
  assume a: "session_cursors_ok s" "map_of (tabs s) tid = Some tb"
  have "tab_cursor_ok (touch_tab t tb)" using a sco_lookup cursor_touch_tab by blast
  then show "session_cursors_ok (s\<lparr>last_used := t, tabs := dict_set tid (touch_tab t tb) (tabs s)\<rparr>)"
    by (rule sco_set[OF a(1)]) simp
qed

lemma cur_push: "cursors_ok m \<Longrightarrow> cursors_ok (upd_tab a b (push_history u) m)"
  unfolding cursors_ok_def
proof (rule all_sessions_upd_tab[where G = "\<lambda>t. True"])
  fix s tb
  assume a: "session_cursors_ok s"
  show "session_cursors_ok (s\<lparr>tabs := dict_set b (push_history u tb) (tabs s)\<rparr>)"
    by (rule sco_set[OF a cursor_push_history]) simp
qed simp

lemma cur_dec:
  "cursors_ok m \<Longrightarrow> get_tab m a b = Some tb \<Longrightarrow> history_index tb > 0
     \<Longrightarrow> cursors_ok (upd_tab a b (\<lambda>t. t\<lparr>history_index := history_index t - 1\<rparr>) m)"
  unfolding cursors_ok_def
proof (rule all_sessions_upd_tab[where G = "\<lambda>t. history_index t > 0"])
  fix s t
  assume a: "session_cursors_ok s" "map_of (tabs s) b = Some t" "0 < history_index t"
  have "tab_cursor_ok (t\<lparr>history_index := history_index t - 1\<rparr>)"
    using sco_lookup[OF a(1,2)] a(3) by (simp add: tab_cursor_ok_def)
  then show "session_cursors_ok (s\<lparr>tabs := dict_set b (t\<lparr>history_index := history_index t - 1\<rparr>) (tabs s)\<rparr>)"
    by (rule sco_set[OF a(1)]) simp
qed auto

lemma cur_inc:
  "cursors_ok m \<Longrightarrow> get_tab m a b = Some tb \<Longrightarrow> history_index tb < int (length (history tb)) - 1
     \<Longrightarrow> cursors_ok (upd_tab a b (\<lambda>t. t\<lparr>history_index := history_index t + 1\<rparr>) m)"
  unfolding cursors_ok_def
proof (rule all_sessions_upd_tab[where G = "\<lambda>t. history_index t < int (length (history t)) - 1"])
  fix s t
  assume a: "session_cursors_ok s" "map_of (tabs s) b = Some t"
    "history_index t < int (length (history t)) - 1"
  have "tab_cursor_ok (t\<lparr>history_index := history_index t + 1\<rparr>)"
    using sco_lookup[OF a(1,2)] a(3) by (simp add: tab_cursor_ok_def)
  then show "session_cursors_ok (s\<lparr>tabs := dict_set b (t\<lparr>history_index := history_index t + 1\<rparr>) (tabs s)\<rparr>)"
    by (rule sco_set[OF a(1)]) simp
qed auto

lemma cur_create_session: "cursors_ok m \<Longrightarrow> cursors_ok (snd (create_session w m))"
  unfolding cursors_ok_def
  by (rule all_sessions_create_session) (simp_all add: session_cursors_ok_def cursor_new_tab)

lemma cur_create_tab: "cursors_ok m \<Longrightarrow> cursors_ok (snd (create_tab w a m))"
  unfolding cursors_ok_def
proof (rule all_sessions_create_tab)
  fix s :: session and tid pg t
  assume a: "session_cursors_ok s"
  show "session_cursors_ok (s\<lparr>tabs := dict_set tid (new_tab pg t) (tabs s),
          active_tab_id := Some tid, last_used := t\<rparr>)"
    by (rule sco_set[OF a cursor_new_tab]) simp
qed

lemma cur_close_tab: "cursors_ok m \<Longrightarrow> cursors_ok (snd (close_tab w a b m))"
  unfolding cursors_ok_def
proof (rule all_sessions_close_tab)
  fix s :: session and tid t
  assume a: "session_cursors_ok s"
  show "session_cursors_ok (s\<lparr>tabs := dict_pop tid (tabs s),
          active_tab_id := (if active_tab_id s = Some tid then first_key (dict_pop tid (tabs s))
                            else active_tab_id s),
          last_used := t\<rparr>)"
    by (rule sco_pop[OF a]) simp
qed

lemma cur_activate_tab: "cursors_ok m \<Longrightarrow> cursors_ok (snd (activate_tab w a b m))"
  unfolding cursors_ok_def
proof (rule all_sessions_activate_tab)
  fix s tid tb t
  assume a: "session_cursors_ok s" "map_of (tabs s) tid = Some tb"
  have "tab_cursor_ok (touch_tab t tb)" using a sco_lookup cursor_touch_tab by blast
  then show "session_cursors_ok (s\<lparr>active_tab_id := Some tid, last_used := t,
          tabs := dict_set tid (touch_tab t tb) (tabs s)\<rparr>)"
    by (rule sco_set[OF a(1)]) simp
qed

lemma cursors_ok_run: "cursors_ok m \<Longrightarrow> cursors_ok (run w op m)"
proof (rule run_pres[where Q = cursors_ok])
  show "cursors_ok (close_session a m)" if "cursors_ok m" for a m
    using that by (simp add: cursors_ok_def all_sessions_close)
qed (simp_all add: cur_get_page cur_push cur_dec cur_inc cur_create_session cur_create_tab
       cur_close_tab cur_activate_tab)

lemma cursors_ok_do_step: "cursors_ok m \<Longrightarrow> cursors_ok (do_step x m)"
proof (cases x)
  case (Whole w op)
  assume "cursors_ok m" then show ?thesis using Whole by (simp add: cursors_ok_run)
next
  case (CloseTabPop sid tid)
  assume a: "cursors_ok m"
  have "session_cursors_ok (if has_key tid (tabs s) then s\<lparr>tabs := dict_pop tid (tabs s)\<rparr> else s)"
    if "session_cursors_ok s" for s
    using that sco_pop[of s "s\<lparr>tabs := dict_pop tid (tabs s)\<rparr>" tid] by simp
  then show ?thesis using a CloseTabPop
    by (simp add: cursors_ok_def close_tab_pop_def all_sessions_upd_session)
next
  case (CloseTabRest w sid tid)
  assume a: "cursors_ok m"
  have "session_cursors_ok
          (if tabs s = [] then s
           else s\<lparr>active_tab_id := (if active_tab_id s = Some tid then first_key (tabs s)
                                      else active_tab_id s),
                  last_used := now w\<rparr>)"
    if "session_cursors_ok s" for s
    using that by (simp add: session_cursors_ok_def)
  then show ?thesis using a CloseTabRest
    by (simp add: cursors_ok_def close_tab_rest_def all_sessions_upd_session)
next
  case (ReapPop sid tid)
  assume a: "cursors_ok m"
  have "session_cursors_ok (reap_pop tid s)" if "session_cursors_ok s" for s
    by (rule sco_pop[OF that, of _ tid]) (simp add: reap_pop_def Let_def)
  then show ?thesis using a ReapPop
    by (simp add: cursors_ok_def all_sessions_upd_session)
next
  case (Touch w sid t)
  assume "cursors_ok m" then show ?thesis using Touch by (simp add: cur_get_page)
next
  case (Record sid tid url)
  assume "cursors_ok m" then show ?thesis using Record by (simp add: cur_push)
qed

section \<open>The active tab is a tab of the session\<close>




















section \<open>Creating a session\<close>

lemma create_session_shape:
  assumes "create_session w m = (Inr (sid, tid), m')"
  shows "\<exists>s tb. get_session m' sid = Some s \<and> tabs s = [(tid, tb)] \<and> history tb = []
           \<and> history_index tb = - 1 \<and> active_tab_id s = Some tid"
  using assms
  by (auto simp: create_session_def initialize_def Let_def get_session_def map_of_dict_set
        new_tab_def split: option.splits if_splits)

lemma create_session_returns:
  assumes "(playwright m \<and> browser m) \<or> (\<not> playwright m \<and> pw_start w \<and> pw_launch w)"
    and "pw_new_context w = Some c" and "pw_new_page w = Some p"
  shows "fst (create_session w m) = Inr (uuid1 w, uuid2 w)"
  using assms
  by (auto simp: create_session_def initialize_def Let_def)

text \<open>
  C6. When \<^verbatim>\<open>create_session\<close> returns \<open>(session_id, initial_tab_id)\<close>, the session
  registered under \<open>session_id\<close> has exactly one tab, keyed by \<open>initial_tab_id\<close>, with an
  empty history and cursor \<open>-1\<close>, and that tab is the active tab. It does return, with the
  two fresh identifiers, whenever the engine is up (or starts) and hands out a context and
  a page.
\<close>

theorem create_session_one_active_tab:
  "(create_session w m = (Inr (sid, tid), m') \<longrightarrow>
      (\<exists>s tb. get_session m' sid = Some s \<and> tabs s = [(tid, tb)] \<and> history tb = []
           \<and> history_index tb = - 1 \<and> active_tab_id s = Some tid))
   \<and> (((playwright m \<and> browser m) \<or> (\<not> playwright m \<and> pw_start w \<and> pw_launch w))
        \<and> pw_new_context w = Some c \<and> pw_new_page w = Some p
        \<longrightarrow> fst (create_session w m) = Inr (uuid1 w, uuid2 w))"
  using create_session_shape create_session_returns by blast

theorem create_session_one_active_tab_witness:
  "create_session example_world manager0 = (Inr (''u1'', ''u2''), snd (create_session example_world manager0))
   \<and> (\<exists>s tb. get_session (snd (create_session example_world manager0)) ''u1'' = Some s
         \<and> tabs s = [(''u2'', tb)] \<and> history tb = []
         \<and> history_index tb = - 1 \<and> active_tab_id s = Some ''u2'')
   \<and> \<not> playwright manager0 \<and> pw_start example_world \<and> pw_launch example_world
   \<and> pw_new_context example_world = Some 7 \<and> pw_new_page example_world = Some 8"
proof -
  have h1: "create_session example_world manager0
      = (Inr (''u1'', ''u2''), snd (create_session example_world manager0))"
    by code_simp
  have h2: "\<not> playwright manager0 \<and> pw_start example_world \<and> pw_launch example_world
   \<and> pw_new_context example_world = Some 7 \<and> pw_new_page example_world = Some 8"
    by code_simp
  show ?thesis
    using h1 h2 create_session_one_active_tab[of example_world manager0 "''u1''" "''u2''"
        "snd (create_session example_world manager0)" 7 8]
    by blast
qed

section \<open>Closing a tab that is not active\<close>

lemma close_tab_inactive:
  assumes "get_session m sid = Some s" and "has_key tid (tabs s)"
    and "active_tab_id s \<noteq> Some tid" and "dict_pop tid (tabs s) \<noteq> []"
  shows "close_tab w sid tid m
           = (Inr (), put_session sid (s\<lparr>tabs := dict_pop tid (tabs s), last_used := now w\<rparr>) m)"
  using assms by (simp add: close_tab_def Let_def)

text \<open>
  C10. When \<^verbatim>\<open>close_tab\<close> closes a tab that is not the active one and another tab
  remains, it returns normally and the session afterwards is the session before with that
  one entry taken out of its tab dict and a new activity stamp: the active pointer, the
  context and every other tab's record (page, history, cursor, stamps) are as before, and
  so is every other session.
\<close>

theorem close_inactive_tab_frame:
  "get_session m sid = Some s \<and> has_key tid (tabs s)
     \<and> active_tab_id s \<noteq> Some tid \<and> dict_pop tid (tabs s) \<noteq> []
   \<longrightarrow> fst (close_tab w sid tid m) = Inr ()
       \<and> get_session (snd (close_tab w sid tid m)) sid
            = Some (s\<lparr>tabs := dict_pop tid (tabs s), last_used := now w\<rparr>)
       \<and> (\<forall>k. k \<noteq> tid \<longrightarrow> map_of (dict_pop tid (tabs s)) k = map_of (tabs s) k)
       \<and> length (tabs s) = Suc (length (dict_pop tid (tabs s)))
       \<and> (distinct (map fst (tabs s)) \<longrightarrow> map_of (dict_pop tid (tabs s)) tid = None)
       \<and> (\<forall>sid'. sid' \<noteq> sid \<longrightarrow>
             get_session (snd (close_tab w sid tid m)) sid' = get_session m sid')"
  by (auto simp: close_tab_inactive get_session_put_same get_session_put_other
        map_of_dict_pop_other map_of_dict_pop_same length_dict_pop)

theorem close_inactive_tab_frame_witness:
  "get_session example_manager ''s1'' = Some example_session
   \<and> has_key ''t2'' (tabs example_session)
   \<and> active_tab_id example_session \<noteq> Some ''t2''
   \<and> dict_pop ''t2'' (tabs example_session) \<noteq> []
   \<and> fst (close_tab example_world ''s1'' ''t2'' example_manager) = Inr ()
   \<and> get_session (snd (close_tab example_world ''s1'' ''t2'' example_manager)) ''s1''
       = Some \<lparr>browser_context = 1, tabs = [(''t1'', example_tab1)],
                active_tab_id = Some ''t1'', created_at = 0, last_used = 5000000000\<rparr>"
proof -
  have h1: "get_session example_manager ''s1'' = Some example_session" by code_simp
  have h2: "has_key ''t2'' (tabs example_session)" by code_simp
  have h3: "active_tab_id example_session \<noteq> Some ''t2''" by code_simp
  have h4: "dict_pop ''t2'' (tabs example_session) \<noteq> []" by code_simp
  have h5: "example_session\<lparr>tabs := dict_pop ''t2'' (tabs example_session),
                             last_used := now example_world\<rparr>
       = \<lparr>browser_context = 1, tabs = [(''t1'', example_tab1)],
          active_tab_id = Some ''t1'', created_at = 0, last_used = 5000000000\<rparr>" by code_simp
  show ?thesis
    using h1 h2 h3 h4 h5
      close_inactive_tab_frame[of example_manager "''s1''" example_session "''t2''" example_world]
    by simp
qed

section \<open>Back and forward\<close>

lemma go_back_boundary:
  assumes "get_session m sid = Some s" and "resolve_tab s t = Inr (tid, tb)"
    and "history_index tb \<le> 0"
  shows "fst (go_back w sid t m) = Inr [(''status'', ''no_history''), (''tab_id'', tid)]"
    and "get_tab (snd (go_back w sid t m)) sid tid = Some (touch_tab (now w) tb)"
  using assms get_tab_after_get_page[OF assms(1,2), of w]
  by (auto simp: go_back_def get_page_resolved touch_tab_def split: option.splits)

lemma go_back_moves:
  assumes "get_session m sid = Some s" and "resolve_tab s t = Inr (tid, tb)"
    and "0 < history_index tb"
  shows "pw_go_back w \<Longrightarrow> fst (go_back w sid t m)
           = Inr [(''status'', ''success''), (''url'', pw_url w), (''tab_id'', tid)]"
    and "get_tab (snd (go_back w sid t m)) sid tid
           = Some ((touch_tab (now w) tb)\<lparr>history_index := history_index tb - 1\<rparr>)"
  using assms get_tab_after_get_page[OF assms(1,2), of w]
    get_tab_upd_tab[of "snd (get_page w sid t m)" sid tid "touch_tab (now w) tb"
      "\<lambda>t. t\<lparr>history_index := history_index t - 1\<rparr>"]
  by (auto simp: go_back_def get_page_resolved touch_tab_def Let_def split: option.splits)

lemma go_forward_boundary:
  assumes "get_session m sid = Some s" and "resolve_tab s t = Inr (tid, tb)"
    and "int (length (history tb)) - 1 \<le> history_index tb"
  shows "fst (go_forward w sid t m) = Inr [(''status'', ''no_forward_history''), (''tab_id'', tid)]"
    and "get_tab (snd (go_forward w sid t m)) sid tid = Some (touch_tab (now w) tb)"
  using assms get_tab_after_get_page[OF assms(1,2), of w]
  by (auto simp: go_forward_def get_page_resolved touch_tab_def split: option.splits)

lemma go_forward_moves:
  assumes "get_session m sid = Some s" and "resolve_tab s t = Inr (tid, tb)"
    and "history_index tb < int (length (history tb)) - 1"
  shows "pw_go_forward w \<Longrightarrow> fst (go_forward w sid t m)
           = Inr [(''status'', ''success''), (''url'', pw_url w), (''tab_id'', tid)]"
    and "get_tab (snd (go_forward w sid t m)) sid tid
           = Some ((touch_tab (now w) tb)\<lparr>history_index := history_index tb + 1\<rparr>)"
  using assms get_tab_after_get_page[OF assms(1,2), of w]
    get_tab_upd_tab[of "snd (get_page w sid t m)" sid tid "touch_tab (now w) tb"
      "\<lambda>t. t\<lparr>history_index := history_index t + 1\<rparr>"]
  by (auto simp: go_forward_def get_page_resolved touch_tab_def Let_def split: option.splits)

lemma back_forward_history:
  assumes "get_session m sid = Some s" and "resolve_tab s t = Inr (tid, tb)"
  shows "map_option history (get_tab (snd (go_back w sid t m)) sid tid) = Some (history tb)"
    and "map_option history (get_tab (snd (go_forward w sid t m)) sid tid) = Some (history tb)"
proof -
  show "map_option history (get_tab (snd (go_back w sid t m)) sid tid) = Some (history tb)"
    using go_back_boundary(2)[OF assms, of w] go_back_moves(2)[OF assms, of w]
    by (cases "history_index tb \<le> 0") (simp_all add: touch_tab_def)
  show "map_option history (get_tab (snd (go_forward w sid t m)) sid tid) = Some (history tb)"
    using go_forward_boundary(2)[OF assms, of w] go_forward_moves(2)[OF assms, of w]
    by (cases "int (length (history tb)) - 1 \<le> history_index tb") (simp_all add: touch_tab_def)
qed

text \<open>
  C7. For the tab that \<^verbatim>\<open>go_back\<close> or \<^verbatim>\<open>go_forward\<close> resolves, with its cursor in
  range: back at cursor \<open>\<le> 0\<close> answers \<open>no_history\<close> and leaves the cursor, and otherwise
  takes one from the cursor and answers \<open>success\<close>; forward at cursor \<open>= len - 1\<close> answers
  \<open>no_forward_history\<close> and leaves the cursor, and otherwise adds one and answers
  \<open>success\<close>. The answer \<open>success\<close> supposes that the engine call returns. In every case
  the history list of the tab is as before.
\<close>

theorem back_forward_move_cursor:
  "get_session m sid = Some s \<and> resolve_tab s t = Inr (tid, tb) \<and> tab_cursor_ok tb \<longrightarrow>
     (history_index tb \<le> 0 \<longrightarrow>
        fst (go_back w sid t m) = Inr [(''status'', ''no_history''), (''tab_id'', tid)]
        \<and> map_option history_index (get_tab (snd (go_back w sid t m)) sid tid)
            = Some (history_index tb))
   \<and> (\<not> history_index tb \<le> 0 \<and> pw_go_back w \<longrightarrow>
        fst (go_back w sid t m)
          = Inr [(''status'', ''success''), (''url'', pw_url w), (''tab_id'', tid)]
        \<and> map_option history_index (get_tab (snd (go_back w sid t m)) sid tid)
            = Some (history_index tb - 1))
   \<and> (history_index tb = int (length (history tb)) - 1 \<longrightarrow>
        fst (go_forward w sid t m) = Inr [(''status'', ''no_forward_history''), (''tab_id'', tid)]
        \<and> map_option history_index (get_tab (snd (go_forward w sid t m)) sid tid)
            = Some (history_index tb))
   \<and> (history_index tb \<noteq> int (length (history tb)) - 1 \<and> pw_go_forward w \<longrightarrow>
        fst (go_forward w sid t m)
          = Inr [(''status'', ''success''), (''url'', pw_url w), (''tab_id'', tid)]
        \<and> map_option history_index (get_tab (snd (go_forward w sid t m)) sid tid)
            = Some (history_index tb + 1))
   \<and> map_option history (get_tab (snd (go_back w sid t m)) sid tid) = Some (history tb)
   \<and> map_option history (get_tab (snd (go_forward w sid t m)) sid tid) = Some (history tb)"
proof (intro impI)
  assume a: "get_session m sid = Some s \<and> resolve_tab s t = Inr (tid, tb) \<and> tab_cursor_ok tb"
  then have g: "get_session m sid = Some s" and r: "resolve_tab s t = Inr (tid, tb)"
    and c: "tab_cursor_ok tb" by simp_all
  have lt: "history_index tb < int (length (history tb)) - 1"
    if "history_index tb \<noteq> int (length (history tb)) - 1"
    using c that by (simp add: tab_cursor_ok_def)
  show "(history_index tb \<le> 0 \<longrightarrow>
        fst (go_back w sid t m) = Inr [(''status'', ''no_history''), (''tab_id'', tid)]
        \<and> map_option history_index (get_tab (snd (go_back w sid t m)) sid tid)
            = Some (history_index tb))
   \<and> (\<not> history_index tb \<le> 0 \<and> pw_go_back w \<longrightarrow>
        fst (go_back w sid t m)
          = Inr [(''status'', ''success''), (''url'', pw_url w), (''tab_id'', tid)]
        \<and> map_option history_index (get_tab (snd (go_back w sid t m)) sid tid)
            = Some (history_index tb - 1))
   \<and> (history_index tb = int (length (history tb)) - 1 \<longrightarrow>
        fst (go_forward w sid t m) = Inr [(''status'', ''no_forward_history''), (''tab_id'', tid)]
        \<and> map_option history_index (get_tab (snd (go_forward w sid t m)) sid tid)
            = Some (history_index tb))
   \<and> (history_index tb \<noteq> int (length (history tb)) - 1 \<and> pw_go_forward w \<longrightarrow>
        fst (go_forward w sid t m)
          = Inr [(''status'', ''success''), (''url'', pw_url w), (''tab_id'', tid)]
        \<and> map_option history_index (get_tab (snd (go_forward w sid t m)) sid tid)
            = Some (history_index tb + 1))
   \<and> map_option history (get_tab (snd (go_back w sid t m)) sid tid) = Some (history tb)
   \<and> map_option history (get_tab (snd (go_forward w sid t m)) sid tid) = Some (history tb)"
    using go_back_boundary[OF g r, of w] go_back_moves[OF g r, of w]
      go_forward_boundary[OF g r, of w] go_forward_moves[OF g r lt, of w]
      back_forward_history[OF g r, of w]
    by (simp add: touch_tab_def)
qed

theorem back_forward_move_cursor_witness:
  "get_session example_manager ''s1'' = Some example_session
   \<and> resolve_tab example_session None = Inr (''t1'', example_tab1)
   \<and> tab_cursor_ok example_tab1
   \<and> \<not> history_index example_tab1 \<le> 0 \<and> pw_go_back example_world
   \<and> history_index example_tab1 = int (length (history example_tab1)) - 1
   \<and> fst (go_back example_world ''s1'' None example_manager)
       = Inr [(''status'', ''success''), (''url'', ''https://example.org/''), (''tab_id'', ''t1'')]
   \<and> map_option history_index
        (get_tab (snd (go_back example_world ''s1'' None example_manager)) ''s1'' ''t1'') = Some 0
   \<and> fst (go_forward example_world ''s1'' None example_manager)
       = Inr [(''status'', ''no_forward_history''), (''tab_id'', ''t1'')]
   \<and> map_option history_index
        (get_tab (snd (go_forward example_world ''s1'' None example_manager)) ''s1'' ''t1'') = Some 1
   \<and> resolve_tab example_session (Some ''t2'') = Inr (''t2'', example_tab2)
   \<and> tab_cursor_ok example_tab2 \<and> history_index example_tab2 \<le> 0
   \<and> fst (go_back example_world ''s1'' (Some ''t2'') example_manager)
       = Inr [(''status'', ''no_history''), (''tab_id'', ''t2'')]
   \<and> map_option history_index
        (get_tab (snd (go_back example_world ''s1'' (Some ''t2'') example_manager)) ''s1'' ''t2'')
       = Some (- 1)"
proof -
  have h1: "get_session example_manager ''s1'' = Some example_session" by code_simp
  have h2: "resolve_tab example_session None = Inr (''t1'', example_tab1)" by code_simp
  have h3: "tab_cursor_ok example_tab1" by code_simp
  have h4: "\<not> history_index example_tab1 \<le> 0 \<and> pw_go_back example_world" by code_simp
  have h5: "history_index example_tab1 = int (length (history example_tab1)) - 1" by code_simp
  have h6: "history_index example_tab1 = 1" by code_simp
  have h7: "pw_url example_world = ''https://example.org/''" by code_simp
  have k2: "resolve_tab example_session (Some ''t2'') = Inr (''t2'', example_tab2)" by code_simp
  have k3: "tab_cursor_ok example_tab2 \<and> history_index example_tab2 \<le> 0" by code_simp
  have k4: "history_index example_tab2 = - 1" by code_simp
  show ?thesis
    using h1 h2 h3 h4 h5 h6 h7 k2 k3 k4
      back_forward_move_cursor[of example_manager "''s1''" example_session None "''t1''"
        example_tab1 example_world]
      back_forward_move_cursor[of example_manager "''s1''" example_session "Some ''t2''" "''t2''"
        example_tab2 example_world]
    by simp
qed

section \<open>State notifications\<close>

lemma map_of_dict_update:
  "\<not> has_key k extra \<Longrightarrow> map_of (dict_update extra d) k = map_of d k"
proof (induction extra arbitrary: d)
  case Nil
  then show ?case by (simp add: dict_update_def)
next
  case (Cons a extra)
  then have "fst a \<noteq> k" and "\<not> has_key k extra"
    by (auto simp: has_key_def split: if_splits)
  then show ?case using Cons.IH[of "dict_set (fst a) (snd a) d"]
    by (simp add: dict_update_def map_of_dict_set)
qed

lemma states_sent_send_json_state:
  "is_state_msg p \<Longrightarrow> states_sent (send_json p c) = states_sent c @ [map_of p ''state'']"
  by (simp add: states_sent_def send_json_def)

lemma states_sent_send_json_other:
  "\<not> is_state_msg p \<Longrightarrow> states_sent (send_json p c) = states_sent c"
  by (simp add: states_sent_def send_json_def)

lemma conn_ok_send_json_other:
  "\<not> is_state_msg p \<Longrightarrow> conn_ok c \<Longrightarrow> conn_ok (send_json p c)"
  by (simp add: conn_ok_def states_sent_send_json_other) (simp add: send_json_def)

lemma conn_ok_fields [simp]:
  "conn_ok (c\<lparr>local_active_tab_id := a\<rparr>) = conn_ok c"
  "conn_ok (c\<lparr>is_navigating := b\<rparr>) = conn_ok c"
  "conn_ok (c\<lparr>closed := x\<rparr>) = conn_ok c"
  "conn_ok (c\<lparr>streaming := y\<rparr>) = conn_ok c"
  by (simp_all add: conn_ok_def states_sent_def)

lemma send_state_same: "Some state = last_sent_state c \<Longrightarrow> send_state w state extra c = c"
  by (simp add: send_state_def)

lemma conn_ok_send_state:
  assumes ok: "conn_ok c" and ex: "extra_ok extra"
  shows "conn_ok (send_state w state extra c)"
proof (cases "Some state = last_sent_state c")
  case True
  then show ?thesis using ok by (simp add: send_state_def)
next
  case False
  let ?p = "dict_update extra
             [(''type'', JStr ''state''), (''state'', JStr state), (''ts'', JTime (now w)),
              (''tab_id'', jopt (local_active_tab_id c))]"
  let ?c = "c\<lparr>last_sent_state := Some state\<rparr>"
  have t: "is_state_msg ?p" and s: "map_of ?p ''state'' = Some (JStr state)"
    using ex by (simp_all add: is_state_msg_def extra_ok_def map_of_dict_update)
  have e: "send_state w state extra c = send_json ?p ?c"
    using False by (simp add: send_state_def)
  have ss: "states_sent ?c = states_sent c" by (simp add: states_sent_def)
  have st: "states_sent (send_state w state extra c) = states_sent c @ [Some (JStr state)]"
    using e t s ss by (simp add: states_sent_send_json_state)
  have ne: "last (states_sent c) \<noteq> Some (JStr state)" if "states_sent c \<noteq> []"
  proof -
    have "last (states_sent c) = Some (jopt (last_sent_state c))" using ok that
      by (simp add: conn_ok_def)
    moreover have "jopt (last_sent_state c) \<noteq> JStr state"
      using False by (cases "last_sent_state c") auto
    ultimately show ?thesis by simp
  qed
  have l: "last_sent_state (send_state w state extra c) = Some state"
    using e by (simp add: send_json_def)
  show ?thesis
    using ok ne st l by (auto simp: conn_ok_def distinct_adj_append_iff)
qed

lemma conn_ok_send_states:
  "conn_ok c \<Longrightarrow> \<forall>r \<in> set reqs. extra_ok (snd (snd r)) \<Longrightarrow> conn_ok (send_states reqs c)"
  unfolding send_states_def
  by (induction reqs arbitrary: c) (auto intro: conn_ok_send_state)

lemma extra_ok_simps [simp]:
  "extra_ok []" "extra_ok [(''session_id'', v)]" "extra_ok [(''tab_id'', v)]"
  by (simp_all add: extra_ok_def has_key_def)

lemma conn_ok_ws_open: "conn_ok (ws_open w sid m)"
proof -
  have z: "conn_ok \<lparr>streaming = st, local_active_tab_id = a, is_navigating = False,
                last_sent_state = None, sent = [], closed = x\<rparr>" for st a x
    by (simp add: conn_ok_def states_sent_def)
  show ?thesis
    by (auto simp: ws_open_def Let_def z split: option.splits intro!: conn_ok_send_state)
qed

lemma conn_ok_stream_step: "conn_ok c \<Longrightarrow> conn_ok (fst (stream_step w sid (c, m)))"
  by (auto simp: stream_step_def Let_def is_state_msg_def
      split: option.splits prod.splits sum.splits
      intro!: conn_ok_send_state conn_ok_send_json_other)

lemma conn_ok_ws_activate_tab:
  "conn_ok c \<Longrightarrow> conn_ok (fst (snd (ws_activate_tab w sid ev c m)))"
  by (auto simp: ws_activate_tab_def is_state_msg_def
      split: option.splits prod.splits sum.splits
      intro!: conn_ok_send_state conn_ok_send_json_other)

lemma conn_ok_ws_new_tab:
  "conn_ok c \<Longrightarrow> conn_ok (fst (snd (ws_new_tab w sid c m)))"
  by (auto simp: ws_new_tab_def is_state_msg_def
      split: option.splits prod.splits sum.splits
      intro!: conn_ok_send_state conn_ok_send_json_other)

lemma conn_ok_ws_close_tab:
  "conn_ok c \<Longrightarrow> conn_ok (fst (snd (ws_close_tab w sid ev c m)))"
  by (auto simp: ws_close_tab_def is_state_msg_def
      split: option.splits prod.splits sum.splits
      intro!: conn_ok_send_state conn_ok_send_json_other)

lemma conn_ok_ws_navigate:
  "conn_ok c \<Longrightarrow> conn_ok (fst (snd (ws_navigate w sid ev t c m)))"
proof -
  assume ok: "conn_ok c"
  have c1: "conn_ok (send_state w ''navigating'' [] (c\<lparr>is_navigating := True\<rparr>))"
    using ok by (auto intro!: conn_ok_send_state)
  have c2: "conn_ok (send_json [(''type'', JStr ''error''), (''message'', JStr msg),
                        (''tab_id'', jopt t)] c')" if "conn_ok c'" for c' msg
    using that by (auto simp: is_state_msg_def intro!: conn_ok_send_json_other)
  show ?thesis
    using ok c1 c2[OF c1]
    by (auto simp: ws_navigate_def Let_def split: option.splits sum.splits
        intro!: conn_ok_send_state)
qed

lemma conn_ok_ws_page_command:
  "conn_ok c \<Longrightarrow> conn_ok (fst (snd (ws_page_command w sid ev t c m)))"
  using conn_ok_ws_navigate[of c w sid ev t m]
  by (auto simp: ws_page_command_def ws_back_def ws_forward_def Let_def split: option.splits)

lemma conn_ok_ws_receive:
  "conn_ok c \<Longrightarrow> conn_ok (fst (snd (ws_receive w sid ev (c, m))))"
proof -
  assume ok: "conn_ok c"
  have p: "conn_ok (send_json [(''type'', JStr ''pong''), (''ts'', JTime (now w))] c)"
    using ok by (auto simp: is_state_msg_def intro!: conn_ok_send_json_other)
  have e: "conn_ok (send_json [(''type'', JStr ''error''),
                           (''message'', JStr ''Session or tab not found'')] c)"
    using ok by (auto simp: is_state_msg_def intro!: conn_ok_send_json_other)
  show ?thesis
    using p e conn_ok_ws_activate_tab[OF ok, of w sid ev m] conn_ok_ws_new_tab[OF ok, of w sid m]
      conn_ok_ws_close_tab[OF ok, of w sid ev m] conn_ok_ws_page_command[OF ok, of w sid ev]
    by (auto simp: ws_receive_def Let_def split: prod.splits sum.splits)
qed

lemma conn_ok_conn_run: "conn_ok (fst cm) \<Longrightarrow> conn_ok (fst (conn_run sid ts cm))"
proof (induction sid ts cm rule: conn_run.induct)
  case (1 session_id cm)
  then show ?case by simp
next
  case (2 session_id w ts cm)
  have "conn_ok (fst (stream_step w session_id cm))"
    using conn_ok_stream_step[of "fst cm" w session_id "snd cm"] 2(2) by simp
  then show ?case using 2(1) by simp
next
  case (3 session_id w data ts cm)
  obtain out c' m' where r: "ws_receive w session_id data cm = (out, c', m')"
    by (cases "ws_receive w session_id data cm") auto
  have ok': "conn_ok c'"
    using conn_ok_ws_receive[of "fst cm" w session_id data "snd cm"] 3(2) r by simp
  show ?case
  proof (cases out)
    case Continue
    then show ?thesis using 3(1)[of out "(c', m')"] r ok' by simp
  next
    case Return
    then show ?thesis using r ok' by simp
  next
    case (Raised e)
    then show ?thesis using r ok' by simp
  qed
qed

text \<open>
  C9. A request to \<^verbatim>\<open>send_state\<close> whose state is the one sent last sends nothing and
  changes nothing. Hence, from a connection whose log agrees with \<^verbatim>\<open>last_sent_state\<close>,
  after any run of requests no two neighbouring state notifications in the log carry the
  same state; and the same holds for the log of a whole connection, from its opening
  through any turns of the command loop and of the frame pump.
\<close>

theorem state_notifications_deduplicated:
  "(Some state = last_sent_state c \<longrightarrow> send_state w state extra c = c)
   \<and> (conn_ok c \<and> (\<forall>r \<in> set reqs. extra_ok (snd (snd r)))
        \<longrightarrow> distinct_adj (states_sent (send_states reqs c)))
   \<and> (get_session m sid = Some s
        \<longrightarrow> distinct_adj (states_sent (fst (conn_run sid turns (ws_open w sid m, m)))))"
  using send_state_same[of state c w extra] conn_ok_send_states[of c reqs]
    conn_ok_conn_run[of "(ws_open w sid m, m)" sid turns] conn_ok_ws_open[of w sid m]
  by (simp add: conn_ok_def)

theorem state_notifications_deduplicated_witness:
  "Some ''connected'' = last_sent_state example_conn
   \<and> send_state example_world ''connected'' [] example_conn = example_conn
   \<and> conn_ok example_conn
   \<and> list_all (\<lambda>r. extra_ok (snd (snd r)))
         [(example_world, ''tab_missing'', []), (example_world, ''tab_missing'', []),
          (example_world, ''navigating'', []), (example_world, ''idle'', []),
          (example_world, ''idle'', [])]
   \<and> states_sent (send_states
         [(example_world, ''tab_missing'', []), (example_world, ''tab_missing'', []),
          (example_world, ''navigating'', []), (example_world, ''idle'', []),
          (example_world, ''idle'', [])] example_conn)
      = [Some (JStr ''connected''), Some (JStr ''tab_missing''), Some (JStr ''navigating''),
         Some (JStr ''idle'')]
   \<and> get_session example_manager ''s1'' = Some example_session
   \<and> states_sent (fst (conn_run ''s1''
         [Receive example_world \<lparr>ev_type = ''navigate'', tabId = None, ev_url = Some ''https://c.example/''\<rparr>,
          Receive example_world \<lparr>ev_type = ''navigate'', tabId = None, ev_url = Some ''https://d.example/''\<rparr>,
          Stream example_world]
         (ws_open example_world ''s1'' example_manager, example_manager)))
      = [Some (JStr ''connected''), Some (JStr ''navigating''), Some (JStr ''idle''),
         Some (JStr ''navigating''), Some (JStr ''idle'')]
   \<and> distinct_adj (states_sent (fst (conn_run ''s1''
         [Receive example_world \<lparr>ev_type = ''navigate'', tabId = None, ev_url = Some ''https://c.example/''\<rparr>,
          Receive example_world \<lparr>ev_type = ''navigate'', tabId = None, ev_url = Some ''https://d.example/''\<rparr>,
          Stream example_world]
         (ws_open example_world ''s1'' example_manager, example_manager))))"
proof -
  have h1: "Some ''connected'' = last_sent_state example_conn" by code_simp
  have h2: "conn_ok example_conn" by code_simp
  have h3: "\<forall>r \<in> set [(example_world, ''tab_missing'', []), (example_world, ''tab_missing'', []),
                    (example_world, ''navigating'', []), (example_world, ''idle'', []),
                    (example_world, ''idle'', [])]. extra_ok (snd (snd r))"
    by (simp add: extra_ok_def has_key_def)
  have h4: "states_sent (send_states
         [(example_world, ''tab_missing'', []), (example_world, ''tab_missing'', []),
          (example_world, ''navigating'', []), (example_world, ''idle'', []),
          (example_world, ''idle'', [])] example_conn)
      = [Some (JStr ''connected''), Some (JStr ''tab_missing''), Some (JStr ''navigating''),
         Some (JStr ''idle'')]" by code_simp
  have h5: "get_session example_manager ''s1'' = Some example_session" by code_simp
  have h6: "states_sent (fst (conn_run ''s1''
         [Receive example_world \<lparr>ev_type = ''navigate'', tabId = None, ev_url = Some ''https://c.example/''\<rparr>,
          Receive example_world \<lparr>ev_type = ''navigate'', tabId = None, ev_url = Some ''https://d.example/''\<rparr>,
          Stream example_world]
         (ws_open example_world ''s1'' example_manager, example_manager)))
      = [Some (JStr ''connected''), Some (JStr ''navigating''), Some (JStr ''idle''),
         Some (JStr ''navigating''), Some (JStr ''idle'')]" by code_simp
  show ?thesis
    using h1 h2 h3 h4 h5 h6
      state_notifications_deduplicated[of "''connected''" example_conn example_world "[]"
        "[(example_world, ''tab_missing'', []), (example_world, ''tab_missing'', []),
          (example_world, ''navigating'', []), (example_world, ''idle'', []),
          (example_world, ''idle'', [])]"
        example_manager "''s1''" example_session
        "[Receive example_world \<lparr>ev_type = ''navigate'', tabId = None, ev_url = Some ''https://c.example/''\<rparr>,
          Receive example_world \<lparr>ev_type = ''navigate'', tabId = None, ev_url = Some ''https://d.example/''\<rparr>,
          Stream example_world]"]
    by (simp add: list_all_iff)
qed

section \<open>Recording a navigation\<close>

text \<open>
  With the cursor in range, \<open>push_history\<close> keeps the entries up to the cursor, appends the
  URL and moves the cursor onto it.
\<close>

lemma push_history_linear:
  assumes "tab_cursor_ok tb"
  shows "history (push_history u tb) = take (nat (history_index tb + 1)) (history tb) @ [u]"
    and "history_index (push_history u tb) = history_index tb + 1"
  using assms by (auto simp: push_history_def slice_to_def tab_cursor_ok_def Let_def)

text \<open>
  Which navigations are recorded. The route records the engine's final URL for a URL
  that is not internal and the virtual URL for the search page; for any other internal URL
  it answers \<open>navigated\<close> and returns before the three lines that record. The command of
  a connection records every navigation that did not raise.
\<close>

lemma navigate_goto_records:
  assumes "get_session m sid = Some s" and "resolve_tab s t = Inr (tid, tb)"
    and "\<not> is_internal url" and "pw_goto w url = Some final_url"
  shows "get_tab (snd (navigate w sid url t m)) sid tid
           = Some (push_history final_url (touch_tab (now w) tb))"
  using assms get_tab_after_get_page[OF assms(1,2), of w]
    get_tab_upd_tab[of "snd (get_page w sid t m)" sid tid "touch_tab (now w) tb"
      "push_history final_url"]
  by (auto simp: navigate_def get_page_resolved Let_def split: option.splits)


lemma navigate_placeholder_skips:
  assumes "get_session m sid = Some s" and "resolve_tab s t = Inr (tid, tb)"
    and "is_internal url" and "parse_internal_search w url = Inr None"
    and "pw_set_content w placeholder_html"
  shows "fst (navigate w sid url t m)
           = Inr [(''status'', ''navigated''), (''url'', url), (''title'', ''Internal page''),
                  (''tab_id'', tid)]"
    and "get_tab (snd (navigate w sid url t m)) sid tid = Some (touch_tab (now w) tb)"
  using assms get_tab_after_get_page[OF assms(1,2), of w]
  by (auto simp: navigate_def get_page_resolved Let_def split: option.splits)

lemma ws_navigate_body_records:
  assumes "get_tab m sid tid = Some tb" and "fst (ws_navigate_body w sid (Some tid) url m) = Inr ()"
  shows "get_tab (snd (ws_navigate_body w sid (Some tid) url m)) sid tid
           = Some (push_history (if is_internal url then url
                                 else (case pw_goto w url of None \<Rightarrow> url | Some u \<Rightarrow> u)) tb)"
  using assms get_tab_upd_tab[OF assms(1)]
  by (auto simp: ws_navigate_body_def Let_def split: option.splits sum.splits if_splits)

text \<open>
  C1. The route \<^verbatim>\<open>navigate\<close> on an internal URL that is not the search page
  (\<^verbatim>\<open>chrome://settings\<close>), for the fresh tab \<open>t2\<close>: the route answers \<open>navigated\<close> and the
  tab still has an empty history and cursor \<open>-1\<close>. The \<^verbatim>\<open>navigate\<close> command of a
  connection, on the same URL and tab, records the URL: history of one entry, cursor \<open>0\<close>.
\<close>

theorem navigate_placeholder_leaves_history:
  "fst (navigate example_world ''s1'' ''chrome://settings'' (Some ''t2'') example_manager)
     = Inr [(''status'', ''navigated''), (''url'', ''chrome://settings''),
            (''title'', ''Internal page''), (''tab_id'', ''t2'')]
   \<and> get_tab (snd (navigate example_world ''s1'' ''chrome://settings'' (Some ''t2'')
                       example_manager)) ''s1'' ''t2''
       = Some (example_tab2\<lparr>tab_last_used := 5000000000\<rparr>)
   \<and> history example_tab2 = [] \<and> history_index example_tab2 = - 1
   \<and> fst (ws_receive example_world ''s1''
             \<lparr>ev_type = ''navigate'', tabId = Some ''t2'', ev_url = Some ''chrome://settings''\<rparr>
             (example_conn, example_manager)) = Continue
   \<and> get_tab (snd (snd (ws_receive example_world ''s1''
             \<lparr>ev_type = ''navigate'', tabId = Some ''t2'', ev_url = Some ''chrome://settings''\<rparr>
             (example_conn, example_manager)))) ''s1'' ''t2''
       = Some (example_tab2\<lparr>tab_last_used := 5000000000, history := [''chrome://settings''],
                            history_index := 0\<rparr>)"
  by code_simp

section \<open>C4: the history cursor stays in range\<close>

text \<open>
  What \<^verbatim>\<open>create_tab\<close> and \<^verbatim>\<open>create_session\<close> register: the new tab, under the fresh
  identifier, as built by \<open>new_tab\<close> (history \<open>[]\<close>, cursor \<open>-1\<close>), and for \<^verbatim>\<open>create_tab\<close>
  the active-tab pointer set to it.
\<close>

lemma create_tab_registers:
  assumes "get_session m sid = Some s" and "pw_new_page w = Some pg"
  shows "create_tab w sid m
           = (Inr (uuid1 w),
              put_session sid
                (s\<lparr>tabs := dict_set (uuid1 w) (new_tab pg (now w)) (tabs s),
                   active_tab_id := Some (uuid1 w), last_used := now w\<rparr>) m)"
  using assms by (simp add: create_tab_def Let_def)

lemma create_tab_fresh:
  assumes "get_session m sid = Some s" and "pw_new_page w = Some pg"
  shows "fst (create_tab w sid m) = Inr (uuid1 w)"
    and "get_tab (snd (create_tab w sid m)) sid (uuid1 w) = Some (new_tab pg (now w))"
    and "map_option active_tab_id (get_session (snd (create_tab w sid m)) sid)
           = Some (Some (uuid1 w))"
  using assms
  by (simp_all add: create_tab_registers get_tab_put get_session_put_same map_of_dict_set)

lemma create_session_fresh:
  assumes "create_session w m = (Inr (sid, tid), m')"
  shows "map_option history (get_tab m' sid tid) = Some []"
    and "map_option history_index (get_tab m' sid tid) = Some (- 1)"
  using create_session_shape[OF assms] by (auto simp: get_tab_def)

text \<open>
  The cursor invariant holds after every schedule of steps from the empty registry.
\<close>

lemma cursors_ok_sched: "cursors_ok (sched xs manager0)"
proof (rule sched_pres[where Q = cursors_ok])
  show "cursors_ok manager0"
    by (simp add: cursors_ok_def all_sessions_def manager0_def)
  show "cursors_ok (do_step x m)" if "cursors_ok m" for x m
    using that by (rule cursors_ok_do_step)
qed

text \<open>
  C4. The cursor of every tab stays in range, \<open>-1 \<le> history_index < length history\<close>.
  \<^verbatim>\<open>create_tab\<close>, when the session exists and the engine hands out a page, returns the
  fresh identifier and registers under it a tab with history \<open>[]\<close> and cursor \<open>-1\<close>; so
  does \<^verbatim>\<open>create_session\<close> for its initial tab. The invariant is kept by every request
  operation (tab creation, navigate, back, forward, refresh and the others), by every segment
  that runs between two suspension points of \<^verbatim>\<open>close_tab\<close>, of the idle reaper and of a
  page operation, and hence holds after every schedule of such segments from the empty
  registry.
\<close>

theorem history_cursor_in_range:
  "(get_session m sid = Some s \<and> pw_new_page w = Some pg \<longrightarrow>
      fst (create_tab w sid m) = Inr (uuid1 w)
      \<and> map_option history (get_tab (snd (create_tab w sid m)) sid (uuid1 w)) = Some []
      \<and> map_option history_index (get_tab (snd (create_tab w sid m)) sid (uuid1 w))
          = Some (- 1))
   \<and> (create_session w m = (Inr (sid', tid'), m') \<longrightarrow>
        map_option history (get_tab m' sid' tid') = Some []
        \<and> map_option history_index (get_tab m' sid' tid') = Some (- 1))
   \<and> (cursors_ok m \<longrightarrow> cursors_ok (run w op m))
   \<and> (cursors_ok m \<longrightarrow> cursors_ok (do_step x m))
   \<and> cursors_ok (sched xs manager0)"
  using create_tab_fresh[of m sid s w pg] create_session_fresh[of w m sid' tid' m']
  by (simp add: new_tab_def cursors_ok_run cursors_ok_do_step cursors_ok_sched)

theorem history_cursor_in_range_witness:
  "get_session example_manager ''s1'' = Some example_session
   \<and> pw_new_page example_world = Some 8
   \<and> fst (create_tab example_world ''s1'' example_manager) = Inr ''u1''
   \<and> get_tab (snd (create_tab example_world ''s1'' example_manager)) ''s1'' ''u1''
       = Some \<lparr>page = 8, tab_created_at = 5000000000, tab_last_used = 5000000000,
                history = [], history_index = - 1\<rparr>
   \<and> create_session example_world manager0
       = (Inr (''u1'', ''u2''), snd (create_session example_world manager0))
   \<and> map_option history_index
        (get_tab (snd (create_session example_world manager0)) ''u1'' ''u2'') = Some (- 1)
   \<and> cursors_ok example_manager
   \<and> cursors_ok (run example_world (GoBack ''s1'' None) example_manager)
   \<and> get_tab (run example_world (GoBack ''s1'' None) example_manager) ''s1'' ''t1''
       = Some (example_tab1\<lparr>tab_last_used := 5000000000, history_index := 0\<rparr>)
   \<and> cursors_ok (do_step (Record ''s1'' ''t1'' ''https://c.example/'') example_manager)
   \<and> get_tab (do_step (Record ''s1'' ''t1'' ''https://c.example/'') example_manager) ''s1'' ''t1''
       = Some (example_tab1\<lparr>history := [''https://a.example/'', ''https://b.example/'',
                                           ''https://c.example/''],
                            history_index := 2\<rparr>)"
proof -
  have h1: "get_session example_manager ''s1'' = Some example_session" by code_simp
  have h2: "pw_new_page example_world = Some 8" by code_simp
  have h3: "uuid1 example_world = ''u1''" by code_simp
  have h4: "get_tab (snd (create_tab example_world ''s1'' example_manager)) ''s1'' ''u1''
       = Some \<lparr>page = 8, tab_created_at = 5000000000, tab_last_used = 5000000000,
                history = [], history_index = - 1\<rparr>" by code_simp
  have h5: "create_session example_world manager0
       = (Inr (''u1'', ''u2''), snd (create_session example_world manager0))" by code_simp
  have h6: "cursors_ok example_manager" by code_simp
  have h7: "get_tab (run example_world (GoBack ''s1'' None) example_manager) ''s1'' ''t1''
       = Some (example_tab1\<lparr>tab_last_used := 5000000000, history_index := 0\<rparr>)" by code_simp
  have h8: "get_tab (do_step (Record ''s1'' ''t1'' ''https://c.example/'') example_manager) ''s1'' ''t1''
       = Some (example_tab1\<lparr>history := [''https://a.example/'', ''https://b.example/'',
                                           ''https://c.example/''],
                            history_index := 2\<rparr>)" by code_simp
  show ?thesis
    using h1 h2 h3 h4 h5 h6 h7 h8
      history_cursor_in_range[of example_manager "''s1''" example_session example_world 8
        "''u1''" "''u2''" "snd (create_session example_world manager0)"
        "GoBack ''s1'' None" "Record ''s1'' ''t1'' ''https://c.example/''" "[]"]
      history_cursor_in_range[of manager0 "''s1''" example_session example_world 8
        "''u1''" "''u2''" "snd (create_session example_world manager0)"
        "GoBack ''s1'' None" "Record ''s1'' ''t1'' ''https://c.example/''" "[]"]
    by simp
qed

section \<open>C5: the active tab is a tab of the session\<close>








section \<open>C2: closing the last tab closes the session\<close>

text \<open>
  \<^verbatim>\<open>close_tab\<close> in its segments: the pop of the tab (up to the suspension at
  \<^verbatim>\<open>page.close()\<close>), the rest, and, when no tab is left, \<^verbatim>\<open>close_session\<close>.
\<close>

lemma close_tab_pop_last:
  assumes "get_session m sid = Some s" and "map fst (tabs s) = [tid]"
  shows "get_session (close_tab_pop sid tid m) sid = Some (s\<lparr>tabs := []\<rparr>)"
  using assms
  by (simp add: close_tab_pop_def get_session_upd_session has_key_single dict_pop_single)

lemma close_tab_pieces:
  assumes "get_session m sid = Some s" and "has_key tid (tabs s)"
  shows "snd (close_tab w sid tid m)
           = sched ([CloseTabPop sid tid, CloseTabRest w sid tid]
                    @ (if dict_pop tid (tabs s) = [] then [Whole w (CloseSession sid)] else [])) m"
  using assms
  by (simp add: close_tab_def close_tab_pop_def close_tab_rest_def upd_session_def Let_def
      get_session_put_same put_session_twice)

text \<open>
  C2, amended. \<^verbatim>\<open>close_tab\<close> on the only tab of a session returns normally and the session
  is no longer registered when it returns. It does so in three segments: the pop, the rest,
  and \<^verbatim>\<open>close_session\<close>; after the first and after the second, the session is still
  registered and has no tab. Every request operation, run as a whole, keeps "every
  registered session has a tab". The keys of the registry are distinct after every
  schedule of segments from the empty registry.
\<close>

theorem close_last_tab_closes_session:
  "(session_keys_distinct m \<and> get_session m sid = Some s \<and> map fst (tabs s) = [tid] \<longrightarrow>
      fst (close_tab w sid tid m) = Inr ()
      \<and> get_session (snd (close_tab w sid tid m)) sid = None
      \<and> snd (close_tab w sid tid m)
          = sched [CloseTabPop sid tid, CloseTabRest w sid tid, Whole w (CloseSession sid)] m
      \<and> get_session (sched [CloseTabPop sid tid] m) sid = Some (s\<lparr>tabs := []\<rparr>)
      \<and> get_session (sched [CloseTabPop sid tid, CloseTabRest w sid tid] m) sid
          = Some (s\<lparr>tabs := []\<rparr>))
   \<and> (session_has_tab m \<longrightarrow> session_has_tab (run w op m))
   \<and> session_keys_distinct (sched xs manager0)"
proof (intro conjI impI)
  assume a: "session_keys_distinct m \<and> get_session m sid = Some s \<and> map fst (tabs s) = [tid]"
  then have d: "session_keys_distinct m" and g: "get_session m sid = Some s"
    and t: "map fst (tabs s) = [tid]" by simp_all
  have k: "has_key tid (tabs s)" and e: "dict_pop tid (tabs s) = []"
    using t by (simp_all add: has_key_single dict_pop_single)
  show "fst (close_tab w sid tid m) = Inr ()" using close_last_tab(1)[OF d g t] .
  show "get_session (snd (close_tab w sid tid m)) sid = None" using close_last_tab(2)[OF d g t] .
  show "snd (close_tab w sid tid m)
          = sched [CloseTabPop sid tid, CloseTabRest w sid tid, Whole w (CloseSession sid)] m"
    using close_tab_pieces[OF g k, of w] e by simp
  have p: "get_session (close_tab_pop sid tid m) sid = Some (s\<lparr>tabs := []\<rparr>)"
    using close_tab_pop_last[OF g t] .
  show "get_session (sched [CloseTabPop sid tid] m) sid = Some (s\<lparr>tabs := []\<rparr>)"
    using p by simp
  show "get_session (sched [CloseTabPop sid tid, CloseTabRest w sid tid] m) sid
          = Some (s\<lparr>tabs := []\<rparr>)"
    using p by (simp add: close_tab_rest_def get_session_upd_session)
next
  assume "session_has_tab m" then show "session_has_tab (run w op m)"
    by (rule session_has_tab_run)
next
  show "session_keys_distinct (sched xs manager0)" by (rule session_keys_distinct_sched)
qed

theorem close_last_tab_closes_session_witness:
  "session_keys_distinct one_tab_manager
   \<and> get_session one_tab_manager ''u1'' = Some one_tab_session
   \<and> map fst (tabs one_tab_session) = [''u2'']
   \<and> fst (close_tab example_world ''u1'' ''u2'' one_tab_manager) = Inr ()
   \<and> get_session (snd (close_tab example_world ''u1'' ''u2'' one_tab_manager)) ''u1'' = None
   \<and> get_session (sched [CloseTabPop ''u1'' ''u2''] one_tab_manager) ''u1''
       = Some (one_tab_session\<lparr>tabs := []\<rparr>)
   \<and> session_has_tab example_manager
   \<and> session_has_tab (run example_world (CloseTab ''s1'' ''t1'') example_manager)"
proof -
  have h1: "session_keys_distinct one_tab_manager" by code_simp
  have h2: "get_session one_tab_manager ''u1'' = Some one_tab_session" by code_simp
  have h3: "map fst (tabs one_tab_session) = [''u2'']" by code_simp
  have h4: "session_has_tab example_manager" by code_simp
  note T1 = close_last_tab_closes_session[of one_tab_manager "''u1''" one_tab_session "''u2''"
      example_world "CloseTab ''s1'' ''t1''" "[]"]
  note T2 = close_last_tab_closes_session[of example_manager "''u1''" one_tab_session "''u2''"
      example_world "CloseTab ''s1'' ''t1''" "[]"]
  have c1: "fst (close_tab example_world ''u1'' ''u2'' one_tab_manager) = Inr ()
     \<and> get_session (snd (close_tab example_world ''u1'' ''u2'' one_tab_manager)) ''u1'' = None
     \<and> get_session (sched [CloseTabPop ''u1'' ''u2''] one_tab_manager) ''u1''
         = Some (one_tab_session\<lparr>tabs := []\<rparr>)"
  proof -
    have "session_keys_distinct one_tab_manager \<and> get_session one_tab_manager ''u1'' = Some one_tab_session
          \<and> map fst (tabs one_tab_session) = [''u2'']"
      using h1 h2 h3 by (intro conjI)
    from mp[OF conjunct1[OF T1] this] show ?thesis
      by (elim conjE) (intro conjI, assumption+)
  qed
  have c2: "session_has_tab (run example_world (CloseTab ''s1'' ''t1'') example_manager)"
    using T2 h4 by blast
  show ?thesis using h1 h2 h3 h4 c1 c2 by blast
qed

text \<open>
  C2, the original statement fails. A session is created and \<^verbatim>\<open>close_tab\<close> on its only
  tab has run up to its suspension at \<^verbatim>\<open>page.close()\<close>: the session is registered with no
  tab, and the status route, run at that point, finds the session and answers 404
  \<open>Tab not found\<close>.
\<close>

theorem zero_tab_session_observable:
  "get_session (sched [Whole example_world CreateSession] manager0) ''u1''
     = Some \<lparr>browser_context = 7,
              tabs = [(''u2'', \<lparr>page = 8, tab_created_at = 5000000000,
                               tab_last_used = 5000000000, history = [],
                               history_index = - 1\<rparr>)],
              active_tab_id = Some ''u2'', created_at = 5000000000, last_used = 5000000000\<rparr>
   \<and> get_session (sched [Whole example_world CreateSession, CloseTabPop ''u1'' ''u2''] manager0)
        ''u1''
       = Some \<lparr>browser_context = 7, tabs = [], active_tab_id = Some ''u2'',
                created_at = 5000000000, last_used = 5000000000\<rparr>
   \<and> fst (get_session_status example_world ''u1'' None
            (sched [Whole example_world CreateSession, CloseTabPop ''u1'' ''u2''] manager0))
       = Inl (HTTPException 404 ''Tab not found'')"
  by code_simp

section \<open>C8: the idle reaper and the only tab\<close>

text \<open>
  C8. The idle reaper removes the only tab of a session. Session \<open>s1\<close> has the tabs \<open>t1\<close>,
  idle for longer than the tab TTL, and \<open>t2\<close>. The reaper tests \<open>t1\<close>: the test holds (two
  tabs), and the reaper is suspended at \<^verbatim>\<open>page.close()\<close>; had the session one tab, the test
  would fail. \<^verbatim>\<open>close_tab\<close> on \<open>t2\<close> runs meanwhile and leaves \<open>t1\<close> as the only tab. The
  reaper resumes and pops \<open>t1\<close> without testing again: the session is registered with no
  tab and no active tab, and it is not past the session TTL, so the sweep leaves it there.
\<close>

theorem reaper_pops_last_tab_after_close_tab:
  "get_session example_manager ''s1'' = Some example_session
   \<and> tabs example_session = [(''t1'', example_tab1), (''t2'', example_tab2)]
   \<and> reap_test example_world example_tab1 example_session
   \<and> \<not> reap_test example_world example_tab1
         (example_session\<lparr>tabs := [(''t1'', example_tab1)]\<rparr>)
   \<and> reap_pop ''t1'' example_session
       = \<lparr>browser_context = 1, tabs = [(''t2'', example_tab2)], active_tab_id = Some ''t2'',
          created_at = 0, last_used = 4000000000\<rparr>
   \<and> get_session (sched [Whole example_world (CloseTab ''s1'' ''t2'')] example_manager) ''s1''
       = Some \<lparr>browser_context = 1, tabs = [(''t1'', example_tab1)],
                active_tab_id = Some ''t1'', created_at = 0, last_used = 5000000000\<rparr>
   \<and> get_session
        (sched [Whole example_world (CloseTab ''s1'' ''t2''), ReapPop ''s1'' ''t1'']
           example_manager) ''s1''
       = Some \<lparr>browser_context = 1, tabs = [], active_tab_id = None,
                created_at = 0, last_used = 5000000000\<rparr>
   \<and> \<not> session_expired example_world
         \<lparr>browser_context = 1, tabs = [], active_tab_id = None,
          created_at = 0, last_used = 5000000000\<rparr>"
  by code_simp

section \<open>C3: a failed search renders the fallback page\<close>








end
